theory Spec2Isabelle
  imports Complex_Main "HOL-Library.AList"
begin

section \<open>Data model of the knowledge graph (core/project\_mind.py)\<close>

text \<open>
  Python dictionaries keep insertion order, so they are association lists with distinct
  keys: \<open>d[k] = v\<close> is \<open>AList.update k v d\<close> (an existing key keeps its place, a new
  one goes to the end), \<open>del d[k]\<close> is \<open>AList.delete k d\<close>, \<open>k in d\<close> is
  \<open>k \<in> set (map fst d)\<close> and \<open>d.get(k)\<close> is \<open>map_of d k\<close>.
  Timestamps (\<open>datetime\<close>) are seconds as integers. Python floats are modelled by exact
  rationals: the risk contributions 0.3, 0.4, 0.2 and the edge strengths 0.8, 1.0 are the
  decimal fractions the source writes, and the rounding of binary floating point is not
  modelled.
\<close>

type_synonym ('k, 'v) dict = "('k \<times> 'v) list"

record CodeEntity =
  name :: string
  entity_type :: string
  e_file_path :: string
  line_number :: int
  signature :: "string option"
  docstring :: "string option"
  complexity_score :: rat
  usage_count :: int
  e_last_modified :: int
  dependencies :: "string list"
  dependents :: "string list"

record FileNode =
  file_path :: string
  language :: string
  size_bytes :: int
  line_count :: int
  last_modified :: int
  file_hash :: string
  file_imports :: "string list"
  exports :: "string list"
  entities :: "CodeEntity list"
  risk_score :: rat
  change_frequency :: int

record ProjectContext =
  project_root :: string
  project_name :: string
  framework_type :: string
  main_language :: string
  architecture_pattern :: string
  build_system :: string
  package_manager :: string
  version :: string
  last_analysis :: int
  total_files :: int
  total_lines :: int
  complexity_distribution :: "(string, int) dict"

text \<open>
  The \<open>networkx.DiGraph\<close>: a node table and an edge table keyed by the pair
  (source, target). \<open>add_node\<close> creates the node or overwrites its attributes,
  \<open>add_edge\<close> creates missing end points with no attributes and creates the edge or
  overwrites its attributes, so there is at most one edge per pair. The \<open>data\<close>
  attribute of a node (a reference to the FileNode or CodeEntity object) is left out.
\<close>

record edge_data =
  relation_type :: string
  strength :: rat

record DiGraph =
  nodes :: "(string, string option) dict"
  edges :: "(string \<times> string, edge_data) dict"

definition empty_graph :: DiGraph where
  "empty_graph = \<lparr>nodes = [], edges = []\<rparr>"

definition add_node :: "string \<Rightarrow> string \<Rightarrow> DiGraph \<Rightarrow> DiGraph" where
  "add_node n ty g = g\<lparr>nodes := AList.update n (Some ty) (nodes g)\<rparr>"

definition touch_node :: "string \<Rightarrow> DiGraph \<Rightarrow> DiGraph" where
  "touch_node n g =
     (if n \<in> set (map fst (nodes g)) then g else g\<lparr>nodes := nodes g @ [(n, None)]\<rparr>)"

definition add_edge :: "string \<Rightarrow> string \<Rightarrow> string \<Rightarrow> rat \<Rightarrow> DiGraph \<Rightarrow> DiGraph" where
  "add_edge u v rel s g =
     (let g1 = touch_node v (touch_node u g)
      in g1\<lparr>edges := AList.update (u, v) \<lparr>relation_type = rel, strength = s\<rparr> (edges g1)\<rparr>)"

definition number_of_edges :: "DiGraph \<Rightarrow> nat" where
  "number_of_edges g = length (edges g)"

record ProjectKnowledgeGraph =
  kg_project_root :: string
  graph :: DiGraph
  files :: "(string, FileNode) dict"
  kg_entities :: "(string, CodeEntity) dict"
  kg_context :: "ProjectContext option"

definition new_knowledge_graph :: "string \<Rightarrow> ProjectKnowledgeGraph" where
  "new_knowledge_graph proot =
     \<lparr>kg_project_root = proot, graph = empty_graph, files = [], kg_entities = [],
      kg_context = None\<rparr>"

section \<open>Risk scoring (\_calculate\_risk\_scores)\<close>

definition risk_factors :: "FileNode \<Rightarrow> rat list" where
  "risk_factors file_node =
     (if size_bytes file_node > 10000 then [3 / 10] else []) @
     (if line_count file_node > 500 then [4 / 10] else []) @
     (if length (entities file_node) > 20 then [3 / 10] else []) @
     (if length (file_imports file_node) > 15 then [2 / 10] else [])"

definition score_file :: "FileNode \<Rightarrow> FileNode" where
  "score_file file_node = file_node\<lparr>risk_score := min 1 (sum_list (risk_factors file_node))\<rparr>"

definition calculate_risk_scores :: "ProjectKnowledgeGraph \<Rightarrow> ProjectKnowledgeGraph" where
  "calculate_risk_scores kg = kg\<lparr>files := map (\<lambda>(p, file_node). (p, score_file file_node)) (files kg)\<rparr>"

section \<open>Strings, paths and errors\<close>

text \<open>
  Exceptions are values: a function that can raise returns \<open>py_error + 'a\<close>, with
  \<open>Inl\<close> the exception. Paths are POSIX path strings; the functions below follow
  \<open>pathlib.PurePosixPath\<close> (components separated by \<open>/\<close>, empty and \<open>.\<close>
  components dropped).
\<close>

datatype py_error =
  TypeError | AttributeError | ValueError | KeyError | ImportError | RuntimeError
  | FileNotFoundError | PermissionError | OSError | CalledProcessError | TimeoutExpired
  | PicklingError | DatabaseError | OtherError

definition startswith :: "string \<Rightarrow> string \<Rightarrow> bool" where
  "startswith s p = (take (length p) s = p)"

definition endswith :: "string \<Rightarrow> string \<Rightarrow> bool" where
  "endswith s p = (length p \<le> length s \<and> drop (length s - length p) s = p)"

fun split_on :: "char \<Rightarrow> string \<Rightarrow> string list" where
  \<comment> \<open>\<open>s.split(c)\<close>: the pieces between the occurrences of \<open>c\<close>, never an empty list\<close>
  "split_on c [] = [[]]"
| "split_on c (x # xs) =
     (if x = c then [] # split_on c xs
      else (case split_on c xs of
              [] \<Rightarrow> [[x]]
            | w # ws \<Rightarrow> (x # w) # ws))"

definition is_space :: "char \<Rightarrow> bool" where
  "is_space c = ((of_char c :: nat) \<in> {9, 10, 11, 12, 13, 28, 29, 30, 31, 32})"

definition strip :: "string \<Rightarrow> string" where
  "strip s = rev (dropWhile is_space (rev (dropWhile is_space s)))"

fun intercalate :: "string \<Rightarrow> string list \<Rightarrow> string" where
  "intercalate sep [] = []"
| "intercalate sep [x] = x"
| "intercalate sep (x # y # ys) = x @ sep @ intercalate sep (y # ys)"

definition is_absolute :: "string \<Rightarrow> bool" where
  "is_absolute p = startswith p ''/''"

definition components :: "string \<Rightarrow> string list" where
  "components p = filter (\<lambda>c. c \<noteq> [] \<and> c \<noteq> ''.'') (split_on CHR ''/'' p)"

definition render :: "bool \<Rightarrow> string list \<Rightarrow> string" where
  "render absolute cs =
     (if absolute then ''/'' @ intercalate ''/'' cs
      else if cs = [] then ''.'' else intercalate ''/'' cs)"

definition parts :: "string \<Rightarrow> string list" where
  "parts p = (if is_absolute p then [''/''] else []) @ components p"

definition path_name :: "string \<Rightarrow> string" where
  "path_name p = (if components p = [] then [] else last (components p))"

definition parent :: "string \<Rightarrow> string" where
  "parent p = render (is_absolute p) (butlast (components p))"

definition path_join :: "string \<Rightarrow> string \<Rightarrow> string" where
  "path_join d s =
     (if is_absolute s then render True (components s)
      else render (is_absolute d) (components d @ components s))"

definition name_suffix :: "string \<Rightarrow> string" where
  \<comment> \<open>\<open>i = name.rfind('.')\<close>; the suffix is \<open>name[i:]\<close> when \<open>0 < i < len(name) - 1\<close>\<close>
  "name_suffix nm =
     (if CHR ''.'' \<notin> set nm then []
      else let i = length nm - 1 - length (takeWhile (\<lambda>c. c \<noteq> CHR ''.'') (rev nm))
           in if 0 < i \<and> i + 1 < length nm then drop i nm else [])"

definition suffix :: "string \<Rightarrow> string" where
  "suffix p = name_suffix (path_name p)"

definition with_suffix :: "string \<Rightarrow> string \<Rightarrow> py_error + string" where
  "with_suffix p ext =
     (let nm = path_name p in
      if nm = [] then Inl ValueError
      else Inr (render (is_absolute p)
             (butlast (components p) @ [take (length nm - length (name_suffix nm)) nm @ ext])))"

definition is_relative_to :: "string \<Rightarrow> string \<Rightarrow> bool" where
  "is_relative_to p q =
     (is_absolute p = is_absolute q \<and>
      take (length (components q)) (components p) = components q)"

section \<open>The file system and the library functions the builder calls\<close>

text \<open>
  The disk is the list of regular files under the project root, in the order
  \<open>rglob("*")\<close> yields them. A file whose \<open>content\<close> is \<open>None\<close> cannot be opened
  or decoded. The parser (\<open>ast.parse\<close> followed by \<open>ast.walk\<close>), the regular
  expression scans of the JavaScript analysis and \<open>hashlib.md5\<close> are library code: they
  are parameters of the model, collected in \<open>runtime\<close>.
\<close>

record disk_file =
  st_size :: int
  st_mtime :: int
  content :: "string option"

type_synonym disk = "(string, disk_file) dict"

datatype ast_node =
  FunctionDef string int "string option"
  | ClassDef string int "string option"
  | Import "string list"
  | ImportFrom "string option"
  | OtherNode

datatype parse_result = Parsed "ast_node list" | SyntaxError | ParseCrash

record runtime =
  md5_hexdigest :: "string \<Rightarrow> string"
  ast_walk :: "string \<Rightarrow> parse_result"
  js_functions :: "string \<Rightarrow> (string \<times> int \<times> string) list"
  js_classes :: "string \<Rightarrow> (string \<times> int \<times> string) list"
  js_imports :: "string \<Rightarrow> string list"
  now :: int

definition path_exists :: "disk \<Rightarrow> string \<Rightarrow> bool" where
  "path_exists d p = (p \<in> set (map fst d))"

definition supported_extensions :: "(string, string) dict" where
  "supported_extensions =
     [(''.py'', ''python''), (''.js'', ''javascript''), (''.jsx'', ''javascript''),
      (''.ts'', ''typescript''), (''.tsx'', ''typescript''), (''.java'', ''java''),
      (''.go'', ''go''), (''.rs'', ''rust''), (''.c'', ''c''), (''.cpp'', ''cpp''),
      (''.h'', ''c''), (''.hpp'', ''cpp'')]"

definition ignore_dirs :: "string list" where
  "ignore_dirs =
     [''node_modules'', ''.git'', ''__pycache__'', ''.pytest_cache'', ''dist'', ''build'',
      ''target'', ''.idea'', ''.vscode'', ''coverage'']"

section \<open>The knowledge-graph builder (ProjectKnowledgeGraph)\<close>

definition new_entity ::
  "runtime \<Rightarrow> string \<Rightarrow> string \<Rightarrow> string \<Rightarrow> int \<Rightarrow> string option \<Rightarrow> string option \<Rightarrow> CodeEntity" where
  "new_entity rt nm ty fp lno sigtext doc =
     \<lparr>name = nm, entity_type = ty, e_file_path = fp, line_number = lno, signature = sigtext,
      docstring = doc, complexity_score = 0, usage_count = 0, e_last_modified = now rt,
      dependencies = [], dependents = []\<rparr>"

definition entity_key :: "string \<Rightarrow> string \<Rightarrow> string" where
  "entity_key fp nm = fp @ '':'' @ nm"

definition add_entity ::
  "CodeEntity \<Rightarrow> FileNode \<times> (string, CodeEntity) dict \<Rightarrow> FileNode \<times> (string, CodeEntity) dict" where
  "add_entity e st =
     ((fst st)\<lparr>entities := entities (fst st) @ [e]\<rparr>,
      AList.update (entity_key (file_path (fst st)) (name e)) e (snd st))"

fun visit_python ::
  "runtime \<Rightarrow> ast_node \<Rightarrow> FileNode \<times> (string, CodeEntity) dict \<Rightarrow> FileNode \<times> (string, CodeEntity) dict" where
  "visit_python rt (FunctionDef nm lno doc) st =
     add_entity (new_entity rt nm ''function'' (file_path (fst st)) lno
                   (Some (''def '' @ nm @ ''(...)'')) doc) st"
| "visit_python rt (ClassDef nm lno doc) st =
     add_entity (new_entity rt nm ''class'' (file_path (fst st)) lno
                   (Some (''class '' @ nm @ ''(...)'')) doc) st"
| "visit_python rt (Import names) st =
     ((fst st)\<lparr>file_imports := file_imports (fst st) @ names\<rparr>, snd st)"
| "visit_python rt (ImportFrom modname) st =
     (case modname of
        None \<Rightarrow> st
      | Some m \<Rightarrow> if m = [] then st
                  else ((fst st)\<lparr>file_imports := file_imports (fst st) @ [m]\<rparr>, snd st))"
| "visit_python rt OtherNode st = st"

definition analyze_python_file ::
  "runtime \<Rightarrow> FileNode \<Rightarrow> string \<Rightarrow> (string, CodeEntity) dict
     \<Rightarrow> py_error + FileNode \<times> (string, CodeEntity) dict" where
  \<comment> \<open>only SyntaxError is caught; any other failure of the parser propagates\<close>
  "analyze_python_file rt file_node text ents =
     (case ast_walk rt text of
        Parsed ns \<Rightarrow> Inr (fold (visit_python rt) ns (file_node, ents))
      | SyntaxError \<Rightarrow> Inr (file_node, ents)
      | ParseCrash \<Rightarrow> Inl OtherError)"

definition analyze_js_file ::
  "runtime \<Rightarrow> FileNode \<Rightarrow> string \<Rightarrow> (string, CodeEntity) dict
     \<Rightarrow> FileNode \<times> (string, CodeEntity) dict" where
  "analyze_js_file rt file_node text ents =
     (let fp = file_path file_node;
          st1 = fold (\<lambda>(nm, lno, matched). add_entity (new_entity rt nm ''function'' fp lno (Some matched) None))
                  (js_functions rt text) (file_node, ents);
          st2 = fold (\<lambda>(nm, lno, matched). add_entity (new_entity rt nm ''class'' fp lno (Some matched) None))
                  (js_classes rt text) st1
      in ((fst st2)\<lparr>file_imports := file_imports (fst st2) @ js_imports rt text\<rparr>, snd st2))"

definition count_lines :: "string \<Rightarrow> int" where
  "count_lines text = int (length (filter (\<lambda>l. strip l \<noteq> []) (split_on CHR 0x0A text)))"

definition analyze_single_file ::
  "runtime \<Rightarrow> disk \<Rightarrow> string \<Rightarrow> ProjectKnowledgeGraph
     \<Rightarrow> FileNode option \<times> ProjectKnowledgeGraph" where
  \<comment> \<open>every exception is caught and turned into the result \<open>None\<close>\<close>
  "analyze_single_file rt d p kg =
     (case map_of d p of
        None \<Rightarrow> (None, kg)
      | Some f \<Rightarrow>
          (case content f of
             None \<Rightarrow> (None, kg)
           | Some text \<Rightarrow>
               (case map_of supported_extensions (suffix p) of
                  None \<Rightarrow> (None, kg)
                | Some lang \<Rightarrow>
                    (let file_node =
                           \<lparr>file_path = p, language = lang, size_bytes = st_size f,
                            line_count = count_lines text, last_modified = st_mtime f,
                            file_hash = md5_hexdigest rt text, file_imports = [], exports = [],
                            entities = [], risk_score = 0, change_frequency = 0\<rparr>
                     in if lang = ''python'' then
                          (case analyze_python_file rt file_node text (kg_entities kg) of
                             Inl e \<Rightarrow> (None, kg)
                           | Inr st \<Rightarrow> (Some (fst st), kg\<lparr>kg_entities := snd st\<rparr>))
                        else if lang = ''javascript'' \<or> lang = ''typescript'' then
                          (let st = analyze_js_file rt file_node text (kg_entities kg)
                           in (Some (fst st), kg\<lparr>kg_entities := snd st\<rparr>))
                        else (Some file_node, kg)))))"

fun scan_loop ::
  "runtime \<Rightarrow> disk \<Rightarrow> int \<Rightarrow> string list \<Rightarrow> nat \<times> ProjectKnowledgeGraph
     \<Rightarrow> nat \<times> ProjectKnowledgeGraph" where
  "scan_loop rt d max_files [] st = st"
| "scan_loop rt d max_files (p # ps) st =
     (if int (fst st) \<ge> max_files then st
      else if list_ex (\<lambda>ignore_dir. ignore_dir \<in> set (parts p)) ignore_dirs
        then scan_loop rt d max_files ps st
      else if suffix p \<in> set (map fst supported_extensions) then
        (case analyze_single_file rt d p (snd st) of
           (None, kg') \<Rightarrow> scan_loop rt d max_files ps (fst st, kg')
         | (Some file_node, kg') \<Rightarrow>
             scan_loop rt d max_files ps
               (Suc (fst st), kg'\<lparr>files := AList.update p file_node (files kg')\<rparr>))
      else scan_loop rt d max_files ps st)"

definition scan_and_analyze_files ::
  "runtime \<Rightarrow> disk \<Rightarrow> int \<Rightarrow> ProjectKnowledgeGraph \<Rightarrow> nat \<times> ProjectKnowledgeGraph" where
  "scan_and_analyze_files rt d max_files kg = scan_loop rt d max_files (map fst d) (0, kg)"

fun first_existing :: "disk \<Rightarrow> string \<Rightarrow> string list \<Rightarrow> py_error + string option" where
  "first_existing d import_path [] = Inr None"
| "first_existing d import_path (ext # exts) =
     (case with_suffix import_path ext of
        Inl e \<Rightarrow> Inl e
      | Inr potential_file \<Rightarrow>
          if path_exists d potential_file then Inr (Some potential_file)
          else first_existing d import_path exts)"

definition resolve_import :: "disk \<Rightarrow> string \<Rightarrow> string \<Rightarrow> py_error + string option" where
  "resolve_import d import_name from_file =
     (if startswith import_name ''.'' then
        (let from_dir = parent from_file;
             import_path =
               (if startswith import_name ''./'' then path_join from_dir (drop 2 import_name)
                else if startswith import_name ''../'' then path_join from_dir import_name
                else path_join from_dir (drop 1 import_name))
         in first_existing d import_path (map fst supported_extensions))
      else Inr None)"

fun add_imports ::
  "disk \<Rightarrow> (string, FileNode) dict \<Rightarrow> string \<Rightarrow> string list \<Rightarrow> nat \<times> DiGraph
     \<Rightarrow> py_error + nat \<times> DiGraph" where
  "add_imports d fs fp [] st = Inr st"
| "add_imports d fs fp (import_name # rest) st =
     (case resolve_import d import_name fp of
        Inl e \<Rightarrow> Inl e
      | Inr None \<Rightarrow> add_imports d fs fp rest st
      | Inr (Some target_file) \<Rightarrow>
          if target_file \<noteq> [] \<and> target_file \<in> set (map fst fs)
          then add_imports d fs fp rest
                 (Suc (fst st), add_edge fp target_file ''imports'' (8 / 10) (snd st))
          else add_imports d fs fp rest st)"

definition add_contains :: "string \<Rightarrow> CodeEntity list \<Rightarrow> DiGraph \<Rightarrow> DiGraph" where
  "add_contains fp ents g =
     fold (\<lambda>e g. add_edge fp (entity_key fp (name e)) ''contains'' 1
                   (add_node (entity_key fp (name e)) ''entity'' g)) ents g"

fun build_loop ::
  "disk \<Rightarrow> (string, FileNode) dict \<Rightarrow> (string, FileNode) dict \<Rightarrow> nat \<times> DiGraph
     \<Rightarrow> py_error + nat \<times> DiGraph" where
  "build_loop d fs [] st = Inr st"
| "build_loop d fs (item # rest) st =
     (case add_imports d fs (fst item) (file_imports (snd item))
             (fst st, add_node (fst item) ''file'' (snd st)) of
        Inl e \<Rightarrow> Inl e
      | Inr st' \<Rightarrow>
          build_loop d fs rest (fst st', add_contains (fst item) (entities (snd item)) (snd st')))"

definition build_dependency_graph ::
  "disk \<Rightarrow> ProjectKnowledgeGraph \<Rightarrow> py_error + nat \<times> ProjectKnowledgeGraph" where
  "build_dependency_graph d kg =
     (case build_loop d (files kg) (files kg) (0, graph kg) of
        Inl e \<Rightarrow> Inl e
      | Inr st \<Rightarrow> Inr (fst st, kg\<lparr>graph := snd st\<rparr>))"

definition complexity_levels :: "(string, FileNode) dict \<Rightarrow> (string, int) dict" where
  "complexity_levels fs =
     (let rs = map (risk_score \<circ> snd) fs in
      [(''low'', int (length (filter (\<lambda>r. r < 3 / 10) rs))),
       (''medium'', int (length (filter (\<lambda>r. \<not> r < 3 / 10 \<and> r < 6 / 10) rs))),
       (''high'', int (length (filter (\<lambda>r. \<not> r < 6 / 10 \<and> r < 8 / 10) rs))),
       (''extreme'', int (length (filter (\<lambda>r. \<not> r < 8 / 10) rs)))])"

definition update_context_statistics :: "ProjectKnowledgeGraph \<Rightarrow> ProjectKnowledgeGraph" where
  "update_context_statistics kg =
     (case kg_context kg of
        None \<Rightarrow> kg
      | Some c \<Rightarrow>
          kg\<lparr>kg_context := Some (c\<lparr>total_files := int (length (files kg)),
                                    total_lines := sum_list (map (line_count \<circ> snd) (files kg)),
                                    complexity_distribution := complexity_levels (files kg)\<rparr>)\<rparr>)"

definition analyze_project ::
  "runtime \<Rightarrow> disk \<Rightarrow> ProjectContext \<Rightarrow> int \<Rightarrow> ProjectKnowledgeGraph
     \<Rightarrow> py_error + ProjectKnowledgeGraph" where
  \<comment> \<open>\<open>detected\<close> is the result of \<open>_analyze_project_context\<close> (manifest heuristics)\<close>
  "analyze_project rt d detected max_files kg =
     (let kg1 = kg\<lparr>kg_context := Some detected\<rparr>;
          kg2 = snd (scan_and_analyze_files rt d max_files kg1)
      in case build_dependency_graph d kg2 of
           Inl e \<Rightarrow> Inl e
         | Inr st \<Rightarrow> Inr (update_context_statistics (calculate_risk_scores (snd st))))"

section \<open>The memory manager (core/project\_memory.py)\<close>

subsection \<open>Stores\<close>

text \<open>
  The relational store holds the tables the save and load paths read and write. The
  \<open>files\<close> table has an AUTOINCREMENT key: a new row gets an identifier larger than
  any used before (\<open>files_seq\<close> is the largest one handed out). The timestamp and
  activity columns that only the maintenance operations read are left out. The snapshot
  store is the cache directory: one \<open>.pkl\<close> file per project identity, which
  unpickles to the graph that was dumped (\<open>Pickled\<close>) or fails to unpickle
  (\<open>Corrupt\<close>).
\<close>

record file_row =
  fr_id :: nat
  fr_project_id :: string
  fr_file_path :: string
  fr_relative_path :: string
  fr_language :: string
  fr_size_bytes :: int
  fr_line_count :: int
  fr_file_hash :: string
  fr_risk_score :: rat
  fr_change_frequency :: int
  fr_last_modified :: int

record entity_row =
  er_project_id :: string
  er_file_id :: nat
  er_name :: string
  er_entity_type :: string
  er_signature :: "string option"
  er_docstring :: "string option"
  er_line_number :: int
  er_complexity_score :: rat
  er_usage_count :: int
  er_last_modified :: int

record dependency_row =
  dr_project_id :: string
  dr_from_file_id :: nat
  dr_to_file_id :: nat
  dr_relation_type :: string
  dr_strength :: rat

record database =
  projects :: "(string, ProjectContext) dict"
  files_tbl :: "file_row list"
  files_seq :: nat
  entities_tbl :: "entity_row list"
  dependencies_tbl :: "dependency_row list"

definition init_database :: database where
  "init_database =
     \<lparr>projects = [], files_tbl = [], files_seq = 0, entities_tbl = [], dependencies_tbl = []\<rparr>"

datatype blob = Pickled ProjectKnowledgeGraph | Corrupt

text \<open>
  \<open>get_project_id\<close> is an attribute of the manager object that the branch layer
  rebinds: \<open>Default_id\<close> is the method of the class (the MD5 of the project path),
  \<open>Branch_id r b\<close> is the lambda the branch layer installs, which ignores its argument and
  hashes \<open>r#b\<close>. Paths are taken to be absolute already.
\<close>

datatype id_binding = Default_id | Branch_id string string

record ProjectMemoryManager =
  db :: database
  cache_dir :: "(string, blob) dict"
  mem_cache :: "(string, ProjectKnowledgeGraph) dict"
  cache_timestamps :: "(string, int) dict"
  max_cache_size :: nat
  cache_ttl :: int
  get_project_id :: id_binding

definition new_manager :: ProjectMemoryManager where
  "new_manager =
     \<lparr>db = init_database, cache_dir = [], mem_cache = [], cache_timestamps = [],
      max_cache_size = 5, cache_ttl = 2 * 3600, get_project_id = Default_id\<rparr>"

definition resolve_project_id :: "runtime \<Rightarrow> ProjectMemoryManager \<Rightarrow> string \<Rightarrow> string" where
  "resolve_project_id rt mgr proot =
     (case get_project_id mgr of
        Default_id \<Rightarrow> md5_hexdigest rt proot
      | Branch_id r b \<Rightarrow> md5_hexdigest rt (r @ ''#'' @ b))"

subsection \<open>save\_project\<close>

text \<open>
  The environment of a save says which steps fail for reasons outside the data (a locked
  database, a full disk, an object that cannot be pickled): \<open>fails step\<close>. Failures
  that follow from the data (no context, a path outside its base) are computed. The
  statements after \<open>BEGIN TRANSACTION\<close> work on a copy of the store that replaces it
  at \<open>COMMIT\<close> and is dropped at \<open>ROLLBACK\<close>. Each save also yields the list of
  its effects in the order they happen.
\<close>

datatype save_step =
  Connect | Write_context | Write_files | Write_entities | Write_dependencies
  | Snapshot_open | Snapshot_dump | Commit

datatype save_event =
  Begin_transaction | Sql_done save_step | Snapshot_truncated | Snapshot_written
  | Committed | Rolled_back | Cache_updated

definition save_project_context :: "string \<Rightarrow> ProjectContext option \<Rightarrow> database \<Rightarrow> py_error + database" where
  \<comment> \<open>INSERT OR REPLACE: rows that clash on the key or on the UNIQUE project\_root go\<close>
  "save_project_context project_id ctx d =
     (case ctx of
        None \<Rightarrow> Inl AttributeError
      | Some c \<Rightarrow>
          Inr (d\<lparr>projects :=
                 filter (\<lambda>row. fst row \<noteq> project_id \<and> project_root (snd row) \<noteq> project_root c)
                   (projects d) @ [(project_id, c)]\<rparr>))"

definition make_file_row :: "string \<Rightarrow> nat \<Rightarrow> string \<times> FileNode \<Rightarrow> file_row" where
  "make_file_row project_id i item =
     \<lparr>fr_id = i, fr_project_id = project_id, fr_file_path = fst item,
      fr_relative_path = render False
         (drop (length (components (parent (parent (file_path (snd item)))))) (components (fst item))),
      fr_language = language (snd item), fr_size_bytes = size_bytes (snd item),
      fr_line_count = line_count (snd item), fr_file_hash = file_hash (snd item),
      fr_risk_score = risk_score (snd item), fr_change_frequency = change_frequency (snd item),
      fr_last_modified = last_modified (snd item)\<rparr>"

fun insert_files :: "string \<Rightarrow> (string, FileNode) dict \<Rightarrow> database \<Rightarrow> py_error + database" where
  "insert_files project_id [] d = Inr d"
| "insert_files project_id (item # rest) d =
     (if \<not> is_relative_to (fst item) (parent (parent (file_path (snd item)))) then Inl ValueError
      else insert_files project_id rest
             (d\<lparr>files_tbl := files_tbl d @ [make_file_row project_id (Suc (files_seq d)) item],
                files_seq := Suc (files_seq d)\<rparr>))"

definition save_files :: "string \<Rightarrow> (string, FileNode) dict \<Rightarrow> database \<Rightarrow> py_error + database" where
  "save_files project_id fs d =
     insert_files project_id fs
       (d\<lparr>files_tbl := filter (\<lambda>r. fr_project_id r \<noteq> project_id) (files_tbl d)\<rparr>)"

definition file_id_map :: "string \<Rightarrow> database \<Rightarrow> (string, nat) dict" where
  "file_id_map project_id d =
     fold (\<lambda>r m. AList.update (fr_file_path r) (fr_id r) m)
       (filter (\<lambda>r. fr_project_id r = project_id) (files_tbl d)) []"

definition make_entity_row :: "string \<Rightarrow> nat \<Rightarrow> CodeEntity \<Rightarrow> entity_row" where
  "make_entity_row project_id file_id e =
     \<lparr>er_project_id = project_id, er_file_id = file_id, er_name = name e,
      er_entity_type = entity_type e, er_signature = signature e, er_docstring = docstring e,
      er_line_number = line_number e, er_complexity_score = complexity_score e,
      er_usage_count = usage_count e, er_last_modified = e_last_modified e\<rparr>"

definition entity_rows :: "string \<Rightarrow> (string, nat) dict \<Rightarrow> (string, CodeEntity) dict \<Rightarrow> entity_row list" where
  \<comment> \<open>\<open>if file_id:\<close> skips entities whose file has no row (and the identifier 0)\<close>
  "entity_rows project_id ids ents =
     concat (map (\<lambda>item. case map_of ids (e_file_path (snd item)) of
                            None \<Rightarrow> []
                          | Some file_id \<Rightarrow>
                              if file_id = 0 then [] else [make_entity_row project_id file_id (snd item)])
                 ents)"

definition save_entities :: "string \<Rightarrow> (string, CodeEntity) dict \<Rightarrow> database \<Rightarrow> database" where
  "save_entities project_id ents d =
     d\<lparr>entities_tbl := filter (\<lambda>r. er_project_id r \<noteq> project_id) (entities_tbl d)
                          @ entity_rows project_id (file_id_map project_id d) ents\<rparr>"

definition dependency_rows ::
  "string \<Rightarrow> (string, nat) dict \<Rightarrow> (string \<times> string, edge_data) dict \<Rightarrow> dependency_row list" where
  \<comment> \<open>\<open>if from_file_id and to_file_id:\<close> keeps the edges between two files with a row\<close>
  "dependency_rows project_id ids es =
     concat (map (\<lambda>item. case (map_of ids (fst (fst item)), map_of ids (snd (fst item))) of
                            (Some from_file_id, Some to_file_id) \<Rightarrow>
                              if from_file_id = 0 \<or> to_file_id = 0 then []
                              else [\<lparr>dr_project_id = project_id, dr_from_file_id = from_file_id,
                                     dr_to_file_id = to_file_id,
                                     dr_relation_type = relation_type (snd item),
                                     dr_strength = strength (snd item)\<rparr>]
                          | _ \<Rightarrow> [])
                 es)"

definition save_dependencies :: "string \<Rightarrow> DiGraph \<Rightarrow> database \<Rightarrow> database" where
  "save_dependencies project_id g d =
     d\<lparr>dependencies_tbl := filter (\<lambda>r. dr_project_id r \<noteq> project_id) (dependencies_tbl d)
                              @ dependency_rows project_id (file_id_map project_id d) (edges g)\<rparr>"

definition aborted :: "save_event list \<Rightarrow> ProjectMemoryManager \<Rightarrow> (bool \<times> save_event list) \<times> ProjectMemoryManager" where
  \<comment> \<open>the inner handler: ROLLBACK, log, \<open>return False\<close>\<close>
  "aborted evs mgr = ((False, Begin_transaction # evs @ [Rolled_back]), mgr)"

definition save_project ::
  "runtime \<Rightarrow> (save_step \<Rightarrow> bool) \<Rightarrow> ProjectKnowledgeGraph \<Rightarrow> ProjectMemoryManager
     \<Rightarrow> (bool \<times> save_event list) \<times> ProjectMemoryManager" where
  "save_project rt fails kg mgr =
     (let project_id = resolve_project_id rt mgr (kg_project_root kg);
          written = [Sql_done Write_context, Sql_done Write_files, Sql_done Write_entities,
                     Sql_done Write_dependencies]
      in
      if fails Connect then ((False, []), mgr)
      else if fails Write_context then aborted [] mgr
      else (case save_project_context project_id (kg_context kg) (db mgr) of
        Inl e \<Rightarrow> aborted [] mgr
      | Inr d1 \<Rightarrow>
      (if fails Write_files then aborted (take 1 written) mgr
       else (case save_files project_id (files kg) d1 of
         Inl e \<Rightarrow> aborted (take 1 written) mgr
       | Inr d2 \<Rightarrow>
       (if fails Write_entities then aborted (take 2 written) mgr
        else if fails Write_dependencies then aborted (take 3 written) mgr
        else if fails Snapshot_open then aborted written mgr
        else if fails Snapshot_dump
          then aborted (written @ [Snapshot_truncated])
                 (mgr\<lparr>cache_dir := AList.update project_id Corrupt (cache_dir mgr)\<rparr>)
        else if fails Commit
          then aborted (written @ [Snapshot_written])
                 (mgr\<lparr>cache_dir := AList.update project_id (Pickled kg) (cache_dir mgr)\<rparr>)
        else ((True, Begin_transaction # written @ [Snapshot_written, Committed, Cache_updated]),
              mgr\<lparr>db := save_dependencies project_id (graph kg)
                          (save_entities project_id (kg_entities kg) d2),
                  cache_dir := AList.update project_id (Pickled kg) (cache_dir mgr),
                  mem_cache := AList.update project_id kg (mem_cache mgr),
                  cache_timestamps := AList.update project_id (now rt) (cache_timestamps mgr)\<rparr>))))))"

subsection \<open>load\_project\<close>

text \<open>
  The environment of a load: the disk (for the modification times the snapshot is checked
  against), whether the cache directory can be searched (\<open>cache_file.exists()\<close> raises
  PermissionError otherwise, outside every handler of \<open>load_project\<close>), whether the
  database can be opened, and whether a top-level module named \<open>project_mind\<close> can be
  imported, which \<open>_rebuild_project_context\<close> does with
  \<open>from project_mind import ProjectContext\<close>.
\<close>

record load_env =
  le_disk :: disk
  cache_dir_searchable :: bool
  database_opens :: bool
  flat_module_importable :: bool

datatype load_source = From_memory | From_snapshot | From_database

definition is_cache_valid :: "disk \<Rightarrow> ProjectKnowledgeGraph \<Rightarrow> bool" where
  "is_cache_valid d kg =
     list_all (\<lambda>item. case map_of d (fst item) of
                         None \<Rightarrow> True
                       | Some f \<Rightarrow> \<not> st_mtime f > last_modified (snd item))
              (files kg)"

definition rebuild_project_context :: "runtime \<Rightarrow> ProjectContext \<Rightarrow> ProjectContext" where
  "rebuild_project_context rt row = row\<lparr>last_analysis := now rt\<rparr>"

definition file_node_of_row :: "file_row \<Rightarrow> FileNode" where
  "file_node_of_row r =
     \<lparr>file_path = fr_file_path r, language = fr_language r, size_bytes = fr_size_bytes r,
      line_count = fr_line_count r, last_modified = fr_last_modified r,
      file_hash = fr_file_hash r, file_imports = [], exports = [], entities = [],
      risk_score = fr_risk_score r, change_frequency = fr_change_frequency r\<rparr>"

definition entity_of_row :: "string \<Rightarrow> entity_row \<Rightarrow> CodeEntity" where
  "entity_of_row fp r =
     \<lparr>name = er_name r, entity_type = er_entity_type r, e_file_path = fp,
      line_number = er_line_number r, signature = er_signature r, docstring = er_docstring r,
      complexity_score = er_complexity_score r, usage_count = er_usage_count r,
      e_last_modified = er_last_modified r, dependencies = [], dependents = []\<rparr>"

definition file_path_map :: "string \<Rightarrow> database \<Rightarrow> (nat, string) dict" where
  "file_path_map project_id d =
     fold (\<lambda>r m. AList.update (fr_id r) (fr_file_path r) m)
       (filter (\<lambda>r. fr_project_id r = project_id) (files_tbl d)) []"

definition rebuild_entity ::
  "(nat, string) dict \<Rightarrow> entity_row \<Rightarrow> ProjectKnowledgeGraph \<Rightarrow> ProjectKnowledgeGraph" where
  "rebuild_entity ids r kg =
     (case map_of ids (er_file_id r) of
        None \<Rightarrow> kg
      | Some fp \<Rightarrow>
          if fp = [] then kg
          else kg\<lparr>kg_entities := AList.update (entity_key fp (er_name r)) (entity_of_row fp r) (kg_entities kg),
                  files := AList.map_entry fp
                             (\<lambda>file_node. file_node\<lparr>entities := entities file_node @ [entity_of_row fp r]\<rparr>)
                             (files kg)\<rparr>)"

definition rebuild_files_and_entities ::
  "string \<Rightarrow> database \<Rightarrow> ProjectKnowledgeGraph \<Rightarrow> ProjectKnowledgeGraph" where
  "rebuild_files_and_entities project_id d kg =
     (let kg1 = fold (\<lambda>r kg. kg\<lparr>files := AList.update (fr_file_path r) (file_node_of_row r) (files kg)\<rparr>)
                  (filter (\<lambda>r. fr_project_id r = project_id) (files_tbl d)) kg
      in fold (rebuild_entity (file_path_map project_id d))
           (filter (\<lambda>r. er_project_id r = project_id) (entities_tbl d)) kg1)"

definition rebuild_edge :: "(nat, string) dict \<Rightarrow> dependency_row \<Rightarrow> DiGraph \<Rightarrow> DiGraph" where
  "rebuild_edge ids r g =
     (case (map_of ids (dr_from_file_id r), map_of ids (dr_to_file_id r)) of
        (Some from_path, Some to_path) \<Rightarrow>
          if from_path = [] \<or> to_path = [] then g
          else add_edge from_path to_path (dr_relation_type r) (dr_strength r) g
      | _ \<Rightarrow> g)"

definition rebuild_dependencies ::
  "string \<Rightarrow> database \<Rightarrow> ProjectKnowledgeGraph \<Rightarrow> ProjectKnowledgeGraph" where
  "rebuild_dependencies project_id d kg =
     (let g1 = fold (\<lambda>fp. add_node fp ''file'') (map fst (files kg)) (graph kg);
          g2 = fold (\<lambda>k. add_node k ''entity'') (map fst (kg_entities kg)) g1
      in kg\<lparr>graph := fold (rebuild_edge (file_path_map project_id d))
                         (filter (\<lambda>r. dr_project_id r = project_id) (dependencies_tbl d)) g2\<rparr>)"

definition load_from_database ::
  "runtime \<Rightarrow> load_env \<Rightarrow> string \<Rightarrow> string \<Rightarrow> ProjectMemoryManager \<Rightarrow> ProjectKnowledgeGraph option" where
  \<comment> \<open>every exception is caught and turned into the result \<open>None\<close>\<close>
  "load_from_database rt env project_id proot mgr =
     (if \<not> database_opens env then None
      else case map_of (projects (db mgr)) project_id of
        None \<Rightarrow> None
      | Some row \<Rightarrow>
          if \<not> flat_module_importable env then None
          else Some (rebuild_dependencies project_id (db mgr)
                 (rebuild_files_and_entities project_id (db mgr)
                    ((new_knowledge_graph proot)\<lparr>kg_context := Some (rebuild_project_context rt row)\<rparr>))))"

definition load_from_stores ::
  "runtime \<Rightarrow> load_env \<Rightarrow> string \<Rightarrow> string \<Rightarrow> ProjectMemoryManager
     \<Rightarrow> (py_error + (ProjectKnowledgeGraph \<times> load_source) option) \<times> ProjectMemoryManager" where
  \<comment> \<open>the snapshot file, then the relational store\<close>
  "load_from_stores rt env project_id proot mgr =
     (let from_db = (Inr (map_option (\<lambda>kg. (kg, From_database))
                            (load_from_database rt env project_id proot mgr)), mgr)
      in if \<not> cache_dir_searchable env then (Inl PermissionError, mgr)
         else case map_of (cache_dir mgr) project_id of
           None \<Rightarrow> from_db
         | Some Corrupt \<Rightarrow> from_db
         | Some (Pickled kg) \<Rightarrow>
             if is_cache_valid (le_disk env) kg
             then (Inr (Some (kg, From_snapshot)),
                   mgr\<lparr>mem_cache := AList.update project_id kg (mem_cache mgr),
                       cache_timestamps := AList.update project_id (now rt) (cache_timestamps mgr)\<rparr>)
             else from_db)"

definition load_project ::
  "runtime \<Rightarrow> load_env \<Rightarrow> string \<Rightarrow> bool \<Rightarrow> ProjectMemoryManager
     \<Rightarrow> (py_error + (ProjectKnowledgeGraph \<times> load_source) option) \<times> ProjectMemoryManager" where
  "load_project rt env proot use_cache mgr =
     (let project_id = resolve_project_id rt mgr proot
      in case (if use_cache then map_of (mem_cache mgr) project_id else None) of
        None \<Rightarrow> load_from_stores rt env project_id proot mgr
      | Some cached \<Rightarrow>
          (case map_of (cache_timestamps mgr) project_id of
             None \<Rightarrow> load_from_stores rt env project_id proot mgr
           | Some cache_time \<Rightarrow>
               if now rt - cache_time < cache_ttl mgr
               then (Inr (Some (cached, From_memory)), mgr)
               else load_from_stores rt env project_id proot mgr))"

section \<open>External version-control calls\<close>

text \<open>
  \<open>subprocess.run\<close> is library code, modelled by what the child process does: the
  program is missing (FileNotFoundError), it exits with a return code and an output, or
  it never exits. A call without \<open>timeout\<close> waits for the child for ever
  (\<open>Blocks\<close>); with a timeout it raises TimeoutExpired instead. With
  \<open>check=True\<close> a non-zero return code raises CalledProcessError. The environment
  \<open>git\<close> gives the behaviour of the child for each command line.
\<close>

datatype child = Tool_absent | Exits int string | Hangs

datatype 'a outcome = Returns 'a | Raises py_error | Blocks

record run_args =
  argv :: "string list"
  check :: bool
  timeout :: "int option"

definition subprocess_run :: "(string list \<Rightarrow> child) \<Rightarrow> run_args \<Rightarrow> (int \<times> string) outcome" where
  "subprocess_run git a =
     (case git (argv a) of
        Tool_absent \<Rightarrow> Raises FileNotFoundError
      | Hangs \<Rightarrow> (case timeout a of None \<Rightarrow> Blocks | Some t \<Rightarrow> Raises TimeoutExpired)
      | Exits rc out \<Rightarrow> if check a \<and> rc \<noteq> 0 then Raises CalledProcessError else Returns (rc, out))"

definition is_digit :: "char \<Rightarrow> bool" where
  "is_digit c = (48 \<le> (of_char c :: nat) \<and> (of_char c :: nat) \<le> 57)"

definition digits_value :: "string \<Rightarrow> int" where
  "digits_value ds = fold (\<lambda>c n. 10 * n + (int (of_char c) - 48)) ds 0"

definition py_int :: "string \<Rightarrow> py_error + int" where
  \<comment> \<open>\<open>int(s)\<close> for decimal text with an optional sign; anything else is a ValueError\<close>
  "py_int s =
     (let t = strip s;
          body = (if startswith t ''-'' \<or> startswith t ''+'' then drop 1 t else t)
      in if body \<noteq> [] \<and> list_all is_digit body
         then Inr (if startswith t ''-'' then - digits_value body else digits_value body)
         else Inl ValueError)"

definition current_branch_call :: run_args where
  "current_branch_call =
     \<lparr>argv = [''git'', ''rev-parse'', ''--abbrev-ref'', ''HEAD''], check = True, timeout = None\<rparr>"

definition get_current_branch :: "(string list \<Rightarrow> child) \<Rightarrow> string outcome" where
  "get_current_branch git =
     (case subprocess_run git current_branch_call of
        Returns r \<Rightarrow> Returns (strip (snd r))
      | Raises e \<Rightarrow> if e = CalledProcessError \<or> e = FileNotFoundError then Returns ''unknown''
                    else Raises e
      | Blocks \<Rightarrow> Blocks)"

definition commit_hash_call :: run_args where
  "commit_hash_call = \<lparr>argv = [''git'', ''rev-parse'', ''HEAD''], check = True, timeout = None\<rparr>"

definition commit_log_call :: run_args where
  "commit_log_call =
     \<lparr>argv = [''git'', ''log'', ''-1'', ''--format=%ct|%an''], check = True, timeout = None\<rparr>"

definition caught_by_commit_info :: "int \<Rightarrow> py_error \<Rightarrow> (string \<times> int \<times> string) outcome" where
  \<comment> \<open>\<open>except (subprocess.CalledProcessError, FileNotFoundError)\<close>\<close>
  "caught_by_commit_info clock e =
     (if e = CalledProcessError \<or> e = FileNotFoundError
      then Returns (''unknown'', clock, ''unknown'') else Raises e)"

definition get_commit_info :: "int \<Rightarrow> (string list \<Rightarrow> child) \<Rightarrow> (string \<times> int \<times> string) outcome" where
  "get_commit_info clock git =
     (case subprocess_run git commit_hash_call of
        Blocks \<Rightarrow> Blocks
      | Raises e \<Rightarrow> caught_by_commit_info clock e
      | Returns hash_result \<Rightarrow>
          (case subprocess_run git commit_log_call of
             Blocks \<Rightarrow> Blocks
           | Raises e \<Rightarrow> caught_by_commit_info clock e
           | Returns info_result \<Rightarrow>
               (case split_on CHR ''|'' (strip (snd info_result)) of
                  [timestamp, author] \<Rightarrow>
                    (case py_int timestamp of
                       Inl e \<Rightarrow> caught_by_commit_info clock e
                     | Inr t \<Rightarrow> Returns (strip (snd hash_result), t, author))
                | _ \<Rightarrow> caught_by_commit_info clock ValueError)))"

definition file_log_call :: "string \<Rightarrow> run_args" where
  "file_log_call fp =
     \<lparr>argv = [''git'', ''log'', ''-1'', ''--format=%H|%ct|%an'', ''--'', fp], check = True,
      timeout = None\<rparr>"

definition caught_by_file_info :: "py_error \<Rightarrow> (string \<times> int \<times> string) option outcome" where
  \<comment> \<open>\<open>except (subprocess.CalledProcessError, FileNotFoundError, ValueError): pass\<close>,
      then \<open>return {}\<close>\<close>
  "caught_by_file_info e =
     (if e = CalledProcessError \<or> e = FileNotFoundError \<or> e = ValueError
      then Returns None else Raises e)"

definition get_git_file_info ::
  "(string list \<Rightarrow> child) \<Rightarrow> string \<Rightarrow> (string \<times> int \<times> string) option outcome" where
  "get_git_file_info git fp =
     (case subprocess_run git (file_log_call fp) of
        Blocks \<Rightarrow> Blocks
      | Raises e \<Rightarrow> caught_by_file_info e
      | Returns r \<Rightarrow>
          if strip (snd r) = [] then Returns None
          else (case split_on CHR ''|'' (strip (snd r)) of
                  [hash_str, timestamp, author] \<Rightarrow>
                    (case py_int timestamp of
                       Inl e \<Rightarrow> caught_by_file_info e
                     | Inr t \<Rightarrow> Returns (Some (hash_str, t, author)))
                | _ \<Rightarrow> caught_by_file_info ValueError))"

section \<open>The branch layer (core/multi\_branch.py)\<close>

record BranchContext =
  branch_name :: string
  commit_hash :: string
  last_commit_time :: int
  author :: string
  branch_type :: string
  parent_branch :: "string option"
  merge_status :: string

text \<open>
  \<open>branch_contexts_file\<close> is the JSON side file \<open>branch_contexts.json\<close>, a map from
  the project root and the branch name to the branch metadata.
\<close>

record MultiBranchProjectMind =
  mb_project_root :: string
  memory_manager :: ProjectMemoryManager
  current_branch :: string
  branch_contexts :: "(string, BranchContext) dict"
  branch_contexts_file :: "(string \<times> string, BranchContext) dict"

definition generate_branch_project_id :: "runtime \<Rightarrow> MultiBranchProjectMind \<Rightarrow> string \<Rightarrow> string" where
  "generate_branch_project_id rt mb branch =
     md5_hexdigest rt (mb_project_root mb @ ''#'' @ branch)"

definition load_branch_project ::
  "runtime \<Rightarrow> load_env \<Rightarrow> string \<Rightarrow> MultiBranchProjectMind
     \<Rightarrow> ProjectKnowledgeGraph option \<times> MultiBranchProjectMind" where
  \<comment> \<open>the assignment that restores the binding is the statement after the load, inside
      the \<open>try\<close>: an exception of the load skips it and the handler returns \<open>None\<close>\<close>
  "load_branch_project rt env branch mb =
     (let original_get_project_id = get_project_id (memory_manager mb);
          patched = (memory_manager mb)\<lparr>get_project_id := Branch_id (mb_project_root mb) branch\<rparr>
      in case load_project rt env (mb_project_root mb) True patched of
           (Inl e, mgr) \<Rightarrow> (None, mb\<lparr>memory_manager := mgr\<rparr>)
         | (Inr r, mgr) \<Rightarrow>
             (map_option fst r,
              mb\<lparr>memory_manager := mgr\<lparr>get_project_id := original_get_project_id\<rparr>\<rparr>))"

definition save_branch_context ::
  "bool \<Rightarrow> string \<Rightarrow> BranchContext \<Rightarrow> MultiBranchProjectMind \<Rightarrow> py_error + MultiBranchProjectMind" where
  \<comment> \<open>\<open>context_file_writable\<close>: whether \<open>open(context_file, 'w')\<close> succeeds\<close>
  "save_branch_context context_file_writable branch bc mb =
     (if \<not> context_file_writable then Inl PermissionError
      else Inr (mb\<lparr>branch_contexts_file :=
                    AList.update (mb_project_root mb, branch) bc (branch_contexts_file mb)\<rparr>))"

definition save_branch_project ::
  "runtime \<Rightarrow> (save_step \<Rightarrow> bool) \<Rightarrow> bool \<Rightarrow> string \<Rightarrow> ProjectKnowledgeGraph \<Rightarrow> BranchContext
     \<Rightarrow> MultiBranchProjectMind \<Rightarrow> bool \<times> MultiBranchProjectMind" where
  "save_branch_project rt fails context_file_writable branch kg bc mb =
     (let original_get_project_id = get_project_id (memory_manager mb);
          patched = (memory_manager mb)\<lparr>get_project_id := Branch_id (mb_project_root mb) branch\<rparr>;
          saved = save_project rt fails kg patched;
          success = fst (fst saved);
          mb1 = mb\<lparr>memory_manager := snd saved\<rparr>
      in case (if success then save_branch_context context_file_writable branch bc mb1 else Inr mb1) of
           Inl e \<Rightarrow> (False, mb1)
         | Inr mb2 \<Rightarrow>
             (success,
              mb2\<lparr>memory_manager := (memory_manager mb2)\<lparr>get_project_id := original_get_project_id\<rparr>\<rparr>))"

section \<open>The incremental updater (core/smart\_incremental\_update.py)\<close>

subsection \<open>Monitoring\<close>

text \<open>
  The watch library is external. For each observer class the environment says how far a
  candidate gets: its constructor raises, \<open>schedule\<close> raises, \<open>start\<close> raises, or it
  starts. The calls made on observers are recorded in the order they happen.
\<close>

datatype observer_cls = Observer | PollingObserver

datatype start_stage = Constructor_raises | Schedule_raises | Start_raises | Starts

datatype watch_event =
  Created observer_cls | Scheduled observer_cls | Started observer_cls
  | Stopped observer_cls | Joined observer_cls

record SmartIncrementalUpdater =
  u_project_root :: string
  u_memory_manager :: ProjectMemoryManager
  observer :: "observer_cls option"
  monitoring :: bool
  observer_class :: "observer_cls option"

definition new_updater :: "string \<Rightarrow> SmartIncrementalUpdater" where
  "new_updater proot =
     \<lparr>u_project_root = proot, u_memory_manager = new_manager, observer = None,
      monitoring = False, observer_class = None\<rparr>"

definition lower :: "string \<Rightarrow> string" where
  "lower s = map (\<lambda>c. if 65 \<le> (of_char c :: nat) \<and> (of_char c :: nat) \<le> 90
                        then char_of ((of_char c :: nat) + 32) else c) s"

definition should_force_polling :: "string \<Rightarrow> bool" where
  \<comment> \<open>\<open>flag\<close> is the value of WATCHDOG\_FORCE\_POLLING, empty when unset\<close>
  "should_force_polling flag =
     (if flag = [] then False else lower flag \<notin> {''0'', ''false'', ''no''})"

definition candidate_observers :: "string \<Rightarrow> observer_cls list" where
  "candidate_observers flag =
     (if should_force_polling flag then [PollingObserver] else [Observer, PollingObserver])"

fun try_observers ::
  "(observer_cls \<Rightarrow> start_stage) \<Rightarrow> observer_cls list \<Rightarrow> watch_event list
     \<Rightarrow> observer_cls option \<times> watch_event list" where
  "try_observers watch [] calls = (None, calls)"
| "try_observers watch (observer_cls # rest) calls =
     (case watch observer_cls of
        Constructor_raises \<Rightarrow> try_observers watch rest calls
      | Schedule_raises \<Rightarrow>
          try_observers watch rest (calls @ [Created observer_cls, Stopped observer_cls])
      | Start_raises \<Rightarrow>
          try_observers watch rest
            (calls @ [Created observer_cls, Scheduled observer_cls, Stopped observer_cls])
      | Starts \<Rightarrow>
          (Some observer_cls,
           calls @ [Created observer_cls, Scheduled observer_cls, Started observer_cls]))"

definition start_monitoring ::
  "string \<Rightarrow> (observer_cls \<Rightarrow> start_stage) \<Rightarrow> SmartIncrementalUpdater
     \<Rightarrow> unit outcome \<times> SmartIncrementalUpdater \<times> watch_event list" where
  "start_monitoring flag watch u =
     (if monitoring u then (Returns (), u, [])
      else case try_observers watch (candidate_observers flag) [] of
        (None, calls) \<Rightarrow> (Raises RuntimeError, u, calls)
      | (Some c, calls) \<Rightarrow>
          (Returns (), u\<lparr>observer := Some c, monitoring := True, observer_class := Some c\<rparr>, calls))"

definition stop_monitoring ::
  "SmartIncrementalUpdater \<Rightarrow> SmartIncrementalUpdater \<times> watch_event list" where
  "stop_monitoring u =
     (case observer u of
        None \<Rightarrow> (u, [])
      | Some c \<Rightarrow> if \<not> monitoring u then (u, [])
                  else (u\<lparr>monitoring := False\<rparr>, [Stopped c, Joined c]))"

definition failing :: "child \<Rightarrow> bool" where
  \<comment> \<open>the tool is absent, or the command exits with a non-zero code\<close>
  "failing c = (case c of Tool_absent \<Rightarrow> True | Exits rc out \<Rightarrow> rc \<noteq> 0 | Hangs \<Rightarrow> False)"

subsection \<open>Applying a batch of changes\<close>

record FileChangeInfo =
  c_file_path :: string
  change_type :: string
  old_hash :: "string option"
  new_hash :: "string option"
  c_timestamp :: int
  content_changed :: bool
  metadata_changed :: bool

text \<open>
  The names an instance of \<open>ProjectKnowledgeGraph\<close> has: the attributes set in
  \<open>__init__\<close> and the methods of the class. Looking up any other name raises
  AttributeError. A call of the bound method \<open>_analyze_single_file(self, file_path)\<close>
  takes exactly one positional argument; with any other number Python raises TypeError
  before the body runs.
\<close>

definition knowledge_graph_attributes :: "string list" where
  "knowledge_graph_attributes =
     [''project_root'', ''graph'', ''files'', ''entities'', ''context'', ''change_history'',
      ''supported_extensions'', ''framework_patterns'', ''analyze_project'',
      ''analyze_changed_files'', ''_analyze_project_context'', ''_detect_framework_type'',
      ''_detect_main_language'', ''_detect_architecture_pattern'', ''_detect_build_system'',
      ''_detect_package_manager'', ''_get_project_version'', ''_scan_and_analyze_files'',
      ''_analyze_single_file'', ''_analyze_python_file'', ''_analyze_js_file'',
      ''_build_dependency_graph'', ''_resolve_import'', ''_analyze_entity_relationships'',
      ''_calculate_risk_scores'', ''_update_context_statistics'', ''get_entity_by_name'',
      ''get_file_dependencies'', ''get_file_dependents'', ''predict_change_impact'',
      ''_get_change_recommendations'', ''export_project_summary'']"

definition getattr_knowledge_graph :: "string \<Rightarrow> py_error + unit" where
  "getattr_knowledge_graph attr =
     (if attr \<in> set knowledge_graph_attributes then Inr () else Inl AttributeError)"

definition call_analyze_single_file ::
  "runtime \<Rightarrow> disk \<Rightarrow> string list \<Rightarrow> ProjectKnowledgeGraph
     \<Rightarrow> py_error + FileNode option \<times> ProjectKnowledgeGraph" where
  "call_analyze_single_file rt d args kg =
     (case args of
        [file_path_arg] \<Rightarrow> Inr (analyze_single_file rt d file_path_arg kg)
      | _ \<Rightarrow> Inl TypeError)"

definition diff_call :: "string \<Rightarrow> run_args" where
  "diff_call fp =
     \<lparr>argv = [''git'', ''diff'', ''--numstat'', ''HEAD~1'', ''HEAD'', ''--'', fp], check = False,
      timeout = None\<rparr>"

definition numstat_field :: "string \<Rightarrow> py_error + int" where
  "numstat_field s = (if s = ''-'' then Inr 0 else py_int s)"

definition risk_level_of :: "int \<Rightarrow> string" where
  "risk_level_of lines_changed =
     (if lines_changed > 100 then ''high'' else if lines_changed > 20 then ''medium'' else ''low'')"

definition analyze_content_changes ::
  "(string list \<Rightarrow> child) \<Rightarrow> string \<Rightarrow> string \<Rightarrow> string \<Rightarrow> (string option \<times> int) outcome" where
  \<comment> \<open>the result is the pair of \<open>risk_level\<close> (absent when the hashes agree) and
      \<open>lines_changed\<close>; only CalledProcessError and ValueError are caught\<close>
  "analyze_content_changes git fp old new =
     (if old = new then Returns (None, 0)
      else case subprocess_run git (diff_call fp) of
        Blocks \<Rightarrow> Blocks
      | Raises e \<Rightarrow> if e = CalledProcessError \<or> e = ValueError then Returns (Some ''low'', 0)
                    else Raises e
      | Returns r \<Rightarrow>
          (let fields = split_on CHR 0x09 (strip (snd r)) in
           if strip (snd r) = [] \<or> length fields < 2 then Returns (Some ''low'', 0)
           else case numstat_field (fields ! 0) of
             Inl e \<Rightarrow> Returns (Some ''low'', 0)
           | Inr added \<Rightarrow>
               (case numstat_field (fields ! 1) of
                  Inl e \<Rightarrow> Returns (Some ''low'', 0)
                | Inr deleted \<Rightarrow> Returns (Some (risk_level_of (added + deleted)), added + deleted))))"

definition remove_file :: "string \<Rightarrow> ProjectKnowledgeGraph \<Rightarrow> ProjectKnowledgeGraph" where
  \<comment> \<open>the branch for \<open>deleted\<close>: the file node and the entities of that file go; the
      \<open>graph\<close> attribute is not touched\<close>
  "remove_file fp kg =
     kg\<lparr>files := AList.delete fp (files kg),
        kg_entities := filter (\<lambda>item. e_file_path (snd item) \<noteq> fp) (kg_entities kg)\<rparr>"

definition set_commit_time ::
  "string \<Rightarrow> (string \<times> int \<times> string) option \<Rightarrow> ProjectKnowledgeGraph \<Rightarrow> ProjectKnowledgeGraph" where
  "set_commit_time fp git_info kg =
     (case git_info of
        None \<Rightarrow> kg
      | Some info \<Rightarrow>
          kg\<lparr>files := AList.map_entry fp (\<lambda>file_node. file_node\<lparr>last_modified := fst (snd info)\<rparr>)
                         (files kg)\<rparr>)"

definition reanalyze_file ::
  "runtime \<Rightarrow> disk \<Rightarrow> (string list \<Rightarrow> child) \<Rightarrow> string \<Rightarrow> FileChangeInfo
     \<Rightarrow> ProjectKnowledgeGraph \<Rightarrow> unit outcome \<times> ProjectKnowledgeGraph" where
  \<comment> \<open>the branch for \<open>created\<close> and \<open>modified\<close>, for a path that exists\<close>
  "reanalyze_file rt d git proot change_info kg =
     (let fp = c_file_path change_info in
      case get_git_file_info git fp of
        Blocks \<Rightarrow> (Blocks, kg)
      | Raises e \<Rightarrow> (Raises e, kg)
      | Returns git_info \<Rightarrow>
          (case analyze_content_changes git fp
                  (case map_of (files kg) fp of None \<Rightarrow> [] | Some file_node \<Rightarrow> file_hash file_node)
                  (case new_hash change_info of None \<Rightarrow> [] | Some h \<Rightarrow> h) of
             Blocks \<Rightarrow> (Blocks, kg)
           | Raises e \<Rightarrow> (Raises e, kg)
           | Returns change_summary \<Rightarrow>
               if \<not> is_relative_to fp proot then (Raises ValueError, kg)
               else (case call_analyze_single_file rt d
                            [fp, render False (drop (length (components proot)) (components fp))] kg of
                       Inl e \<Rightarrow> (Raises e, kg)
                     | Inr r \<Rightarrow> (Returns (), set_commit_time fp git_info (snd r)))))"

definition process_single_file_change ::
  "runtime \<Rightarrow> disk \<Rightarrow> (string list \<Rightarrow> child) \<Rightarrow> string \<Rightarrow> FileChangeInfo
     \<Rightarrow> ProjectKnowledgeGraph \<Rightarrow> unit outcome \<times> ProjectKnowledgeGraph" where
  "process_single_file_change rt d git proot change_info kg =
     (if change_type change_info = ''deleted''
        then (Returns (), remove_file (c_file_path change_info) kg)
      else if change_type change_info = ''created'' \<or> change_type change_info = ''modified''
        then (if path_exists d (c_file_path change_info)
              then reanalyze_file rt d git proot change_info kg
              else (Returns (), kg))
      else (Returns (), kg))"

fun apply_changes ::
  "runtime \<Rightarrow> disk \<Rightarrow> (string list \<Rightarrow> child) \<Rightarrow> string \<Rightarrow> (string, FileChangeInfo) dict
     \<Rightarrow> string list \<times> ProjectKnowledgeGraph
     \<Rightarrow> unit outcome \<times> string list \<times> ProjectKnowledgeGraph" where
  \<comment> \<open>the loop over the batch: an exception of one change is logged and the loop goes on;
      the path joins \<open>updated_files\<close> only when its change returned\<close>
  "apply_changes rt d git proot [] st = (Returns (), st)"
| "apply_changes rt d git proot (item # rest) st =
     (case process_single_file_change rt d git proot (snd item) (snd st) of
        (Blocks, kg') \<Rightarrow> (Blocks, fst st, kg')
      | (Raises e, kg') \<Rightarrow> apply_changes rt d git proot rest (fst st, kg')
      | (Returns u, kg') \<Rightarrow> apply_changes rt d git proot rest (List.insert (fst item) (fst st), kg'))"

definition update_dependencies :: "ProjectKnowledgeGraph \<Rightarrow> string list \<Rightarrow> unit outcome" where
  \<comment> \<open>for each updated file still in \<open>files\<close> the code looks up
      \<open>knowledge_graph._analyze_imports_exports\<close>\<close>
  "update_dependencies kg updated_files =
     (if list_ex (\<lambda>fp. fp \<in> set (map fst (files kg))) updated_files
      then (case getattr_knowledge_graph ''_analyze_imports_exports'' of
              Inl e \<Rightarrow> Raises e
            | Inr u \<Rightarrow> Returns ())
      else Returns ())"

text \<open>
  The environment of a batch: the disk and the load environment, the version-control
  tool, the failures of the save, and the context the manifest heuristics detect (for the
  full re-analysis). The graph that \<open>load_project\<close> returns from the in-process cache or
  the snapshot is the object the cache holds, so its mutation shows in the cache.
\<close>

record update_env =
  ue_load :: load_env
  ue_git :: "string list \<Rightarrow> child"
  ue_fails :: "save_step \<Rightarrow> bool"
  ue_detected :: ProjectContext

definition full_reanalysis ::
  "runtime \<Rightarrow> update_env \<Rightarrow> string \<Rightarrow> ProjectMemoryManager \<Rightarrow> (py_error + bool) \<times> ProjectMemoryManager" where
  "full_reanalysis rt env proot mgr =
     (case analyze_project rt (le_disk (ue_load env)) (ue_detected env) 1000 (new_knowledge_graph proot) of
        Inl e \<Rightarrow> (Inl e, mgr)
      | Inr kg \<Rightarrow> (Inr (fst (fst (save_project rt (ue_fails env) kg mgr))),
                   snd (save_project rt (ue_fails env) kg mgr)))"

definition share_with_cache ::
  "runtime \<Rightarrow> string \<Rightarrow> load_source \<Rightarrow> ProjectKnowledgeGraph \<Rightarrow> ProjectMemoryManager \<Rightarrow> ProjectMemoryManager" where
  "share_with_cache rt proot src kg mgr =
     (if src = From_database then mgr
      else mgr\<lparr>mem_cache := AList.update (resolve_project_id rt mgr proot) kg (mem_cache mgr)\<rparr>)"

definition process_file_changes ::
  "runtime \<Rightarrow> update_env \<Rightarrow> (string, FileChangeInfo) dict \<Rightarrow> SmartIncrementalUpdater
     \<Rightarrow> unit outcome \<times> ProjectKnowledgeGraph option \<times> SmartIncrementalUpdater" where
  \<comment> \<open>the second component is the in-memory graph the batch worked on, if one was loaded\<close>
  "process_file_changes rt env changes u =
     (case load_project rt (ue_load env) (u_project_root u) True (u_memory_manager u) of
        (Inl e, mgr) \<Rightarrow> (Raises e, None, u\<lparr>u_memory_manager := mgr\<rparr>)
      | (Inr None, mgr) \<Rightarrow>
          (case full_reanalysis rt env (u_project_root u) mgr of
             (Inl e, mgr') \<Rightarrow> (Raises e, None, u\<lparr>u_memory_manager := mgr'\<rparr>)
           | (Inr ok, mgr') \<Rightarrow> (Returns (), None, u\<lparr>u_memory_manager := mgr'\<rparr>))
      | (Inr (Some loaded), mgr) \<Rightarrow>
          (case apply_changes rt (le_disk (ue_load env)) (ue_git env) (u_project_root u) changes
                  ([], fst loaded) of
             (Blocks, updated_files, kg) \<Rightarrow>
               (Blocks, Some kg,
                u\<lparr>u_memory_manager := share_with_cache rt (u_project_root u) (snd loaded) kg mgr\<rparr>)
           | (Raises e, updated_files, kg) \<Rightarrow>
               (Raises e, Some kg,
                u\<lparr>u_memory_manager := share_with_cache rt (u_project_root u) (snd loaded) kg mgr\<rparr>)
           | (Returns r, updated_files, kg) \<Rightarrow>
               (case update_dependencies kg updated_files of
                  Returns r' \<Rightarrow>
                    (Returns (), Some kg,
                     u\<lparr>u_memory_manager :=
                         snd (save_project rt (ue_fails env) kg
                                (share_with_cache rt (u_project_root u) (snd loaded) kg mgr))\<rparr>)
                | Raises e \<Rightarrow>
                    (Raises e, Some kg,
                     u\<lparr>u_memory_manager := share_with_cache rt (u_project_root u) (snd loaded) kg mgr\<rparr>)
                | Blocks \<Rightarrow>
                    (Blocks, Some kg,
                     u\<lparr>u_memory_manager := share_with_cache rt (u_project_root u) (snd loaded) kg mgr\<rparr>))))"

definition relational_write_raises ::
  "(save_step \<Rightarrow> bool) \<Rightarrow> ProjectKnowledgeGraph \<Rightarrow> bool" where
  \<comment> \<open>an exception in one of the four relational write steps of a save: raised by the
      environment, by a graph without context, or by a file path outside its base\<close>
  "relational_write_raises fails kg =
     (fails Write_context \<or> kg_context kg = None \<or> fails Write_files
      \<or> list_ex (\<lambda>item. \<not> is_relative_to (fst item) (parent (parent (file_path (snd item)))))
            (files kg)
      \<or> fails Write_entities \<or> fails Write_dependencies)"




section \<open>Scenario data\<close>

definition scenario_b_file :: FileNode where
  "scenario_b_file =
     \<lparr>file_path = ''/proj/big.py'', language = ''python'', size_bytes = 10500, line_count = 520,
      last_modified = 0, file_hash = [], file_imports = replicate 16 ''os'', exports = [],
      entities = replicate 21
        \<lparr>name = ''f'', entity_type = ''function'', e_file_path = ''/proj/big.py'', line_number = 1,
         signature = None, docstring = None, complexity_score = 0, usage_count = 0,
         e_last_modified = 0, dependencies = [], dependents = []\<rparr>,
      risk_score = 0, change_frequency = 0\<rparr>"

text \<open>
  A runtime for the concrete evaluations: the hash is replaced by the identity on strings
  (so distinct paths have distinct identities, as they do under MD5 for the paths used),
  and the parser knows the files of the scenarios.
\<close>

definition scenario_parse :: "string \<Rightarrow> parse_result" where
  "scenario_parse text =
     (if text = ''def foo(): pass'' then Parsed [OtherNode, FunctionDef ''foo'' 1 None, OtherNode, OtherNode]
      else if text = ''from a import foo'' then Parsed [OtherNode, ImportFrom (Some ''a''), OtherNode]
      else if text = ''def bar(): pass'' then Parsed [OtherNode, FunctionDef ''bar'' 1 None, OtherNode, OtherNode]
      else SyntaxError)"

definition scenario_runtime :: runtime where
  "scenario_runtime =
     \<lparr>md5_hexdigest = (\<lambda>s. s), ast_walk = scenario_parse, js_functions = (\<lambda>s. []),
      js_classes = (\<lambda>s. []), js_imports = (\<lambda>s. []), now = 1000\<rparr>"

definition scenario_context :: "string \<Rightarrow> ProjectContext" where
  "scenario_context proot =
     \<lparr>project_root = proot, project_name = path_name proot, framework_type = ''unknown'',
      main_language = ''python'', architecture_pattern = ''unknown'', build_system = ''unknown'',
      package_manager = ''unknown'', version = ''0.0.0'', last_analysis = 1000, total_files = 0,
      total_lines = 0, complexity_distribution = []\<rparr>"

definition no_faults :: "save_step \<Rightarrow> bool" where
  "no_faults step = False"

definition analysed_empty :: "string \<Rightarrow> ProjectKnowledgeGraph" where
  \<comment> \<open>the graph of a project without source files\<close>
  "analysed_empty proot = (new_knowledge_graph proot)\<lparr>kg_context := Some (scenario_context proot)\<rparr>"

definition six_saves :: ProjectMemoryManager where
  "six_saves =
     fold (\<lambda>proot mgr. snd (save_project scenario_runtime no_faults (analysed_empty proot) mgr))
       [''/p1'', ''/p2'', ''/p3'', ''/p4'', ''/p5'', ''/p6''] new_manager"

definition scenario_branch_mind :: MultiBranchProjectMind where
  "scenario_branch_mind =
     \<lparr>mb_project_root = ''/proj'', memory_manager = new_manager, current_branch = ''main'',
      branch_contexts = [], branch_contexts_file = []\<rparr>"

definition scenario_branch_context :: BranchContext where
  "scenario_branch_context =
     \<lparr>branch_name = ''feature/x'', commit_hash = ''0123456789abcdef'', last_commit_time = 900,
      author = ''dev'', branch_type = ''feature'', parent_branch = Some ''develop'',
      merge_status = ''active''\<rparr>"

definition unsearchable_cache_dir :: load_env where
  "unsearchable_cache_dir =
     \<lparr>le_disk = [], cache_dir_searchable = False, database_opens = True,
      flat_module_importable = False\<rparr>"

definition hanging_git :: "string list \<Rightarrow> child" where
  "hanging_git command = Hangs"

definition absent_git :: "string list \<Rightarrow> child" where
  "absent_git command = Tool_absent"

definition not_a_repository :: "string list \<Rightarrow> child" where
  "not_a_repository command = Exits 128 ''fatal: not a git repository''"

definition nothing_starts :: "observer_cls \<Rightarrow> start_stage" where
  "nothing_starts c = (case c of Observer \<Rightarrow> Start_raises | PollingObserver \<Rightarrow> Schedule_raises)"

text \<open>
  Scenario A: a project with \<open>a.py\<close> holding \<open>def foo(): pass\<close> and \<open>b.py\<close>
  holding \<open>from a import foo\<close>, and the graph its analysis yields.
\<close>

definition scenario_a_disk :: disk where
  "scenario_a_disk =
     [(''/proj/a.py'', \<lparr>st_size = 15, st_mtime = 500, content = Some ''def foo(): pass''\<rparr>),
      (''/proj/b.py'', \<lparr>st_size = 17, st_mtime = 500, content = Some ''from a import foo''\<rparr>)]"

definition scenario_foo :: CodeEntity where
  "scenario_foo =
     \<lparr>name = ''foo'', entity_type = ''function'', e_file_path = ''/proj/a.py'', line_number = 1,
      signature = Some ''def foo(...)'', docstring = None, complexity_score = 0, usage_count = 0,
      e_last_modified = 1000, dependencies = [], dependents = []\<rparr>"

definition scenario_a_py :: FileNode where
  "scenario_a_py =
     \<lparr>file_path = ''/proj/a.py'', language = ''python'', size_bytes = 15, line_count = 1,
      last_modified = 500, file_hash = ''def foo(): pass'', file_imports = [], exports = [],
      entities = [scenario_foo], risk_score = 0, change_frequency = 0\<rparr>"

definition scenario_b_py :: FileNode where
  "scenario_b_py =
     \<lparr>file_path = ''/proj/b.py'', language = ''python'', size_bytes = 17, line_count = 1,
      last_modified = 500, file_hash = ''from a import foo'', file_imports = [''a''], exports = [],
      entities = [], risk_score = 0, change_frequency = 0\<rparr>"

definition scenario_a_graph :: ProjectKnowledgeGraph where
  "scenario_a_graph =
     \<lparr>kg_project_root = ''/proj'',
      graph = \<lparr>nodes = [(''/proj/a.py'', Some ''file''), (''/proj/a.py:foo'', Some ''entity''),
                       (''/proj/b.py'', Some ''file'')],
               edges = [((''/proj/a.py'', ''/proj/a.py:foo''),
                         \<lparr>relation_type = ''contains'', strength = 1\<rparr>)]\<rparr>,
      files = [(''/proj/a.py'', scenario_a_py), (''/proj/b.py'', scenario_b_py)],
      kg_entities = [(''/proj/a.py:foo'', scenario_foo)],
      kg_context = Some ((scenario_context ''/proj'')
                     \<lparr>total_files := 2, total_lines := 2,
                      complexity_distribution :=
                        [(''low'', 2), (''medium'', 0), (''high'', 0), (''extreme'', 0)]\<rparr>)\<rparr>"

text \<open>
  An updater whose manager holds the graph of scenario A in its in-process cache, a
  version-control tool that is present and prints nothing, and two batches: \<open>a.py\<close>
  deleted, and \<open>a.py\<close> rewritten to \<open>def bar(): pass\<close>.
\<close>

definition quiet_git :: "string list \<Rightarrow> child" where
  "quiet_git command = Exits 0 []"

definition scenario_updater :: SmartIncrementalUpdater where
  "scenario_updater =
     (new_updater ''/proj'')
       \<lparr>u_memory_manager :=
          new_manager\<lparr>mem_cache := [(''/proj'', scenario_a_graph)],
                      cache_timestamps := [(''/proj'', 990)]\<rparr>\<rparr>"

definition scenario_env :: "disk \<Rightarrow> update_env" where
  "scenario_env d =
     \<lparr>ue_load = \<lparr>le_disk = d, cache_dir_searchable = True, database_opens = True,
                 flat_module_importable = False\<rparr>,
      ue_git = quiet_git, ue_fails = no_faults, ue_detected = scenario_context ''/proj''\<rparr>"

definition change_of :: "string \<Rightarrow> string \<Rightarrow> string option \<Rightarrow> FileChangeInfo" where
  "change_of fp kind h =
     \<lparr>c_file_path = fp, change_type = kind, old_hash = None, new_hash = h, c_timestamp = 1000,
      content_changed = False, metadata_changed = False\<rparr>"



definition a_modified_disk :: disk where
  "a_modified_disk =
     [(''/proj/a.py'', \<lparr>st_size = 15, st_mtime = 600, content = Some ''def bar(): pass''\<rparr>),
      (''/proj/b.py'', \<lparr>st_size = 17, st_mtime = 500, content = Some ''from a import foo''\<rparr>)]"

definition a_modified_batch :: "(string, FileChangeInfo) dict" where
  "a_modified_batch =
     [(''/proj/a.py'', change_of ''/proj/a.py'' ''modified'' (Some ''def bar(): pass''))]"

definition commit_fails :: "save_step \<Rightarrow> bool" where
  "commit_fails step = (step = Commit)"

definition entities_write_fails :: "save_step \<Rightarrow> bool" where
  "entities_write_fails step = (step = Write_entities)"







section \<open>Properties of risk scoring\<close>

lemma map_of_scored:
  "map_of (map (\<lambda>(p, file_node). (p, score_file file_node)) fs) p = map_option score_file (map_of fs p)"
  by (induction fs) auto

lemma risk_contributions:
  "sum_list (risk_factors file_node) =
     (if size_bytes file_node > 10000 then 3 / 10 else 0) +
     (if line_count file_node > 500 then 4 / 10 else 0) +
     (if length (entities file_node) > 20 then 3 / 10 else 0) +
     (if length (file_imports file_node) > 15 then 2 / 10 else 0)"
  by (simp add: risk_factors_def)

text \<open>
  C7. After \<open>_calculate_risk_scores\<close> every file node of the graph carries the score
  \<open>min 1 s\<close>, where \<open>s\<close> adds 0.3 when the size is above 10000 bytes, 0.4 when the
  line count is above 500, 0.3 when there are more than 20 entities and 0.2 when there are
  more than 15 imports, each comparison strict. A file above all four thresholds scores 1,
  a file at or below all four scores 0.
\<close>

theorem risk_score_additive_saturating:
  "map_of (files (calculate_risk_scores kg)) p = map_option score_file (map_of (files kg) p)
   \<and> risk_score (score_file file_node) =
       min 1 ((if size_bytes file_node > 10000 then 3 / 10 else 0) +
              (if line_count file_node > 500 then 4 / 10 else 0) +
              (if length (entities file_node) > 20 then 3 / 10 else 0) +
              (if length (file_imports file_node) > 15 then 2 / 10 else 0))
   \<and> (size_bytes file_node > 10000 \<and> line_count file_node > 500
        \<and> length (entities file_node) > 20 \<and> length (file_imports file_node) > 15
        \<longrightarrow> risk_score (score_file file_node) = 1)
   \<and> (size_bytes file_node \<le> 10000 \<and> line_count file_node \<le> 500
        \<and> length (entities file_node) \<le> 20 \<and> length (file_imports file_node) \<le> 15
        \<longrightarrow> risk_score (score_file file_node) = 0)"
proof -
  have a: "map_of (files (calculate_risk_scores kg)) p = map_option score_file (map_of (files kg) p)"
    by (simp add: calculate_risk_scores_def map_of_scored)
  have b: "risk_score (score_file file_node) = min 1 (sum_list (risk_factors file_node))"
    by (simp add: score_file_def)
  show ?thesis
    using a b by (simp add: risk_contributions)
qed

text \<open>
  The file of scenario B (10,500 bytes, 520 lines, 21 entities, 16 imports) is above all
  four thresholds and scores 1.
\<close>

theorem risk_score_scenario_b:
  "size_bytes scenario_b_file = 10500 \<and> line_count scenario_b_file = 520
   \<and> length (entities scenario_b_file) = 21 \<and> length (file_imports scenario_b_file) = 16
   \<and> risk_score (score_file scenario_b_file) = 1
   \<and> map_of (files (calculate_risk_scores
         ((new_knowledge_graph ''/proj'')\<lparr>files := [(''/proj/big.py'', scenario_b_file)]\<rparr>)))
        ''/proj/big.py'' = Some (scenario_b_file\<lparr>risk_score := 1\<rparr>)"
  using risk_score_additive_saturating
    [of "(new_knowledge_graph ''/proj'')\<lparr>files := [(''/proj/big.py'', scenario_b_file)]\<rparr>"
        "''/proj/big.py''" scenario_b_file]
  by (simp add: scenario_b_file_def score_file_def risk_factors_def)

section \<open>Properties of the monitoring state machine\<close>

lemma try_observers_none_start:
  "(\<And>c. c \<in> set cs \<Longrightarrow> watch c \<noteq> Starts) \<Longrightarrow>
   (\<And>c. Started c \<notin> set calls \<and> (Created c \<in> set calls \<longrightarrow> Stopped c \<in> set calls)) \<Longrightarrow>
   fst (try_observers watch cs calls) = None \<and>
   (\<forall>c. Started c \<notin> set (snd (try_observers watch cs calls)) \<and>
        (Created c \<in> set (snd (try_observers watch cs calls)) \<longrightarrow>
         Stopped c \<in> set (snd (try_observers watch cs calls))))"
proof (induction cs arbitrary: calls)
  case Nil
  then show ?case by simp
next
  case (Cons a cs)
  have na: "watch a \<noteq> Starts" using Cons.prems(1) by simp
  have rest: "\<And>c. c \<in> set cs \<Longrightarrow> watch c \<noteq> Starts" using Cons.prems(1) by simp
  show ?case
  proof (cases "watch a")
    case Constructor_raises
    then show ?thesis using Cons.IH [OF rest, of calls] Cons.prems(2) by simp
  next
    case Schedule_raises
    have "\<And>c. Started c \<notin> set (calls @ [Created a, Stopped a]) \<and>
        (Created c \<in> set (calls @ [Created a, Stopped a]) \<longrightarrow> Stopped c \<in> set (calls @ [Created a, Stopped a]))"
      using Cons.prems(2) by auto
    from Cons.IH [OF rest this] show ?thesis using Schedule_raises by simp
  next
    case Start_raises
    have "\<And>c. Started c \<notin> set (calls @ [Created a, Scheduled a, Stopped a]) \<and>
        (Created c \<in> set (calls @ [Created a, Scheduled a, Stopped a]) \<longrightarrow>
         Stopped c \<in> set (calls @ [Created a, Scheduled a, Stopped a]))"
      using Cons.prems(2) by auto
    from Cons.IH [OF rest this] show ?thesis using Start_raises by simp
  next
    case Starts
    then show ?thesis using na by simp
  qed
qed

lemma try_observers_some:
  "fst (try_observers watch cs calls) = Some c \<Longrightarrow> watch c = Starts \<and> c \<in> set cs"
  by (induction cs arbitrary: calls) (auto split: start_stage.splits)

text \<open>
  C8. \<open>start_monitoring\<close> while monitoring returns without any effect;
  \<open>stop_monitoring\<close> while idle (or without an observer) returns without any effect;
  a start in which no candidate observer starts raises RuntimeError, leaves the updater
  as it was (so \<open>monitoring\<close> stays false), starts no observer and stops every observer
  it created. A start that returns leaves \<open>monitoring\<close> true, an effective stop leaves
  it false, and both keep "monitoring implies an observer is set".
\<close>

theorem monitoring_state_machine:
  "(monitoring u \<longrightarrow> start_monitoring flag watch u = (Returns (), u, []))
   \<and> (\<not> monitoring u \<or> observer u = None \<longrightarrow> stop_monitoring u = (u, []))
   \<and> (\<not> monitoring u \<and> (\<forall>c \<in> set (candidate_observers flag). watch c \<noteq> Starts) \<longrightarrow>
        fst (start_monitoring flag watch u) = Raises RuntimeError
        \<and> fst (snd (start_monitoring flag watch u)) = u
        \<and> (\<forall>c. Started c \<notin> set (snd (snd (start_monitoring flag watch u)))
               \<and> (Created c \<in> set (snd (snd (start_monitoring flag watch u)))
                    \<longrightarrow> Stopped c \<in> set (snd (snd (start_monitoring flag watch u))))))
   \<and> (fst (start_monitoring flag watch u) = Returns ()
        \<longrightarrow> monitoring (fst (snd (start_monitoring flag watch u))))
   \<and> ((monitoring u \<longrightarrow> observer u \<noteq> None) \<longrightarrow>
        (monitoring (fst (snd (start_monitoring flag watch u)))
           \<longrightarrow> observer (fst (snd (start_monitoring flag watch u))) \<noteq> None)
        \<and> (monitoring (fst (stop_monitoring u)) \<longrightarrow> observer (fst (stop_monitoring u)) \<noteq> None))
   \<and> (monitoring u \<and> observer u \<noteq> None \<longrightarrow> \<not> monitoring (fst (stop_monitoring u)))"
proof -
  have restart: "monitoring u \<longrightarrow> start_monitoring flag watch u = (Returns (), u, [])"
    by (simp add: start_monitoring_def)
  have idle_stop: "\<not> monitoring u \<or> observer u = None \<longrightarrow> stop_monitoring u = (u, [])"
    by (auto simp: stop_monitoring_def split: option.splits)
  have failed_start:
    "\<not> monitoring u \<and> (\<forall>c \<in> set (candidate_observers flag). watch c \<noteq> Starts) \<longrightarrow>
        fst (start_monitoring flag watch u) = Raises RuntimeError
        \<and> fst (snd (start_monitoring flag watch u)) = u
        \<and> (\<forall>c. Started c \<notin> set (snd (snd (start_monitoring flag watch u)))
               \<and> (Created c \<in> set (snd (snd (start_monitoring flag watch u)))
                    \<longrightarrow> Stopped c \<in> set (snd (snd (start_monitoring flag watch u)))))"
  proof (intro impI)
    assume a: "\<not> monitoring u \<and> (\<forall>c \<in> set (candidate_observers flag). watch c \<noteq> Starts)"
    have t: "fst (try_observers watch (candidate_observers flag) []) = None \<and>
       (\<forall>c. Started c \<notin> set (snd (try_observers watch (candidate_observers flag) [])) \<and>
            (Created c \<in> set (snd (try_observers watch (candidate_observers flag) [])) \<longrightarrow>
             Stopped c \<in> set (snd (try_observers watch (candidate_observers flag) []))))"
      by (rule try_observers_none_start) (use a in auto)
    obtain r calls where rc: "try_observers watch (candidate_observers flag) [] = (r, calls)"
      by (cases "try_observers watch (candidate_observers flag) []")
    with t have "r = None" by simp
    with a rc have s: "start_monitoring flag watch u = (Raises RuntimeError, u, calls)"
      by (simp add: start_monitoring_def)
    show "fst (start_monitoring flag watch u) = Raises RuntimeError
        \<and> fst (snd (start_monitoring flag watch u)) = u
        \<and> (\<forall>c. Started c \<notin> set (snd (snd (start_monitoring flag watch u)))
               \<and> (Created c \<in> set (snd (snd (start_monitoring flag watch u)))
                    \<longrightarrow> Stopped c \<in> set (snd (snd (start_monitoring flag watch u)))))"
      using t rc s by simp
  qed
  have started: "fst (start_monitoring flag watch u) = Returns ()
        \<longrightarrow> monitoring (fst (snd (start_monitoring flag watch u)))"
    by (auto simp: start_monitoring_def split: prod.splits option.splits)
  have inv: "(monitoring u \<longrightarrow> observer u \<noteq> None) \<longrightarrow>
        (monitoring (fst (snd (start_monitoring flag watch u)))
           \<longrightarrow> observer (fst (snd (start_monitoring flag watch u))) \<noteq> None)
        \<and> (monitoring (fst (stop_monitoring u)) \<longrightarrow> observer (fst (stop_monitoring u)) \<noteq> None)"
    by (auto simp: start_monitoring_def stop_monitoring_def split: prod.splits option.splits)
  have stopped: "monitoring u \<and> observer u \<noteq> None \<longrightarrow> \<not> monitoring (fst (stop_monitoring u))"
    by (auto simp: stop_monitoring_def split: option.splits)
  from restart idle_stop failed_start started inv stopped show ?thesis by blast
qed

text \<open>
  The theorem at an updater on which the native observer fails in \<open>start\<close> and the
  polling observer in \<open>schedule\<close>, and at a monitoring updater.
\<close>

theorem monitoring_state_machine_witness:
  "start_monitoring [] nothing_starts (new_updater ''/proj'') =
     (Raises RuntimeError, new_updater ''/proj'',
      [Created Observer, Scheduled Observer, Stopped Observer,
       Created PollingObserver, Stopped PollingObserver])
   \<and> \<not> monitoring (new_updater ''/proj'')
   \<and> stop_monitoring (new_updater ''/proj'') = (new_updater ''/proj'', [])
   \<and> start_monitoring [] nothing_starts
        ((new_updater ''/proj'')\<lparr>observer := Some Observer, monitoring := True\<rparr>) =
       (Returns (), (new_updater ''/proj'')\<lparr>observer := Some Observer, monitoring := True\<rparr>, [])
   \<and> stop_monitoring ((new_updater ''/proj'')\<lparr>observer := Some Observer, monitoring := True\<rparr>) =
       ((new_updater ''/proj'')\<lparr>observer := Some Observer, monitoring := False\<rparr>,
        [Stopped Observer, Joined Observer])"
  using monitoring_state_machine [of "new_updater ''/proj''" "[]" nothing_starts]
    monitoring_state_machine
      [of "(new_updater ''/proj'')\<lparr>observer := Some Observer, monitoring := True\<rparr>" "[]" nothing_starts]
  by (simp add: start_monitoring_def stop_monitoring_def new_updater_def nothing_starts_def
        candidate_observers_def should_force_polling_def)

section \<open>Properties of the version-control calls\<close>

lemma failing_run:
  "failing (git (argv a)) \<Longrightarrow> check a \<Longrightarrow>
   subprocess_run git a = Raises FileNotFoundError \<or> subprocess_run git a = Raises CalledProcessError"
  by (cases "git (argv a)") (auto simp: failing_def subprocess_run_def)

text \<open>
  C9, as amended. The calls for the current branch, the commit information and the
  per-file log pass no timeout. When the tool is absent or the command exits with a
  non-zero code (not a repository, for one), the current-branch query returns
  \<open>unknown\<close>, the commit-information query returns \<open>unknown\<close> for the hash and
  the author with the current time, and the per-file log returns the empty result; none of
  them raises.
\<close>

theorem vcs_calls_unbounded_but_degrade:
  "timeout current_branch_call = None \<and> timeout commit_hash_call = None
   \<and> timeout commit_log_call = None \<and> timeout (file_log_call fp) = None
   \<and> (failing (git (argv current_branch_call)) \<longrightarrow> get_current_branch git = Returns ''unknown'')
   \<and> (failing (git (argv commit_hash_call)) \<longrightarrow>
        get_commit_info clock git = Returns (''unknown'', clock, ''unknown''))
   \<and> (git (argv commit_hash_call) = Exits 0 h \<and> failing (git (argv commit_log_call)) \<longrightarrow>
        get_commit_info clock git = Returns (''unknown'', clock, ''unknown''))
   \<and> (failing (git (argv (file_log_call fp))) \<longrightarrow> get_git_file_info git fp = Returns None)"
proof -
  have t: "timeout current_branch_call = None \<and> timeout commit_hash_call = None
   \<and> timeout commit_log_call = None \<and> timeout (file_log_call fp) = None"
    by (simp add: current_branch_call_def commit_hash_call_def commit_log_call_def file_log_call_def)
  have b: "failing (git (argv current_branch_call)) \<longrightarrow> get_current_branch git = Returns ''unknown''"
    using failing_run [of git current_branch_call]
    by (auto simp: get_current_branch_def current_branch_call_def)
  have c1: "failing (git (argv commit_hash_call)) \<longrightarrow>
        get_commit_info clock git = Returns (''unknown'', clock, ''unknown'')"
    using failing_run [of git commit_hash_call]
    by (auto simp: get_commit_info_def commit_hash_call_def caught_by_commit_info_def)
  have c2: "git (argv commit_hash_call) = Exits 0 h \<and> failing (git (argv commit_log_call)) \<longrightarrow>
        get_commit_info clock git = Returns (''unknown'', clock, ''unknown'')"
  proof (intro impI)
    assume a: "git (argv commit_hash_call) = Exits 0 h \<and> failing (git (argv commit_log_call))"
    then have h: "subprocess_run git commit_hash_call = Returns (0, h)"
      by (simp add: subprocess_run_def)
    have "check commit_log_call" by (simp add: commit_log_call_def)
    with a failing_run [of git commit_log_call]
    have "subprocess_run git commit_log_call = Raises FileNotFoundError
           \<or> subprocess_run git commit_log_call = Raises CalledProcessError" by simp
    with h show "get_commit_info clock git = Returns (''unknown'', clock, ''unknown'')"
      by (auto simp: get_commit_info_def caught_by_commit_info_def)
  qed
  have f: "failing (git (argv (file_log_call fp))) \<longrightarrow> get_git_file_info git fp = Returns None"
    using failing_run [of git "file_log_call fp"]
    by (auto simp: get_git_file_info_def file_log_call_def caught_by_file_info_def)
  from t b c1 c2 f show ?thesis by blast
qed

text \<open>The theorem where git is not installed, and outside a repository.\<close>

theorem vcs_calls_witness:
  "failing (absent_git (argv current_branch_call))
   \<and> get_current_branch absent_git = Returns ''unknown''
   \<and> failing (not_a_repository (argv commit_hash_call))
   \<and> get_commit_info 1000 not_a_repository = Returns (''unknown'', 1000, ''unknown'')
   \<and> get_git_file_info not_a_repository ''/proj/a.py'' = Returns None"
  using vcs_calls_unbounded_but_degrade [of "''/proj/a.py''" absent_git 1000]
        vcs_calls_unbounded_but_degrade [of "''/proj/a.py''" not_a_repository 1000]
  by (simp add: failing_def absent_git_def not_a_repository_def)

text \<open>
  C9 as stated fails: the calls carry no timeout, so when the child process never exits
  none of the three queries returns a placeholder; each waits for ever.
\<close>

theorem vcs_call_hangs_counterexample:
  "get_current_branch hanging_git = Blocks
   \<and> get_commit_info 1000 hanging_git = Blocks
   \<and> get_git_file_info hanging_git ''/proj/a.py'' = Blocks
   \<and> timeout current_branch_call = None"
  by (simp add: get_current_branch_def get_commit_info_def get_git_file_info_def
        subprocess_run_def hanging_git_def current_branch_call_def commit_hash_call_def
        file_log_call_def)

section \<open>Properties of the branch layer\<close>

text \<open>
  C6 on the code. A load for a branch in which \<open>load_project\<close> raises (the cache
  directory cannot be searched), and a save for a branch in which writing the branch
  metadata raises, both return with \<open>get_project_id\<close> of the shared manager still
  bound to the lambda of that branch: the assignment that restores it is skipped.
\<close>

theorem branch_binding_left_patched:
  "get_project_id (memory_manager scenario_branch_mind) = Default_id
   \<and> load_branch_project scenario_runtime unsearchable_cache_dir ''feature/x'' scenario_branch_mind =
       (None, scenario_branch_mind
                \<lparr>memory_manager := new_manager\<lparr>get_project_id := Branch_id ''/proj'' ''feature/x''\<rparr>\<rparr>)
   \<and> fst (save_branch_project scenario_runtime no_faults False ''feature/x''
             (analysed_empty ''/proj'') scenario_branch_context scenario_branch_mind) = False
   \<and> get_project_id (memory_manager (snd (save_branch_project scenario_runtime no_faults False
        ''feature/x'' (analysed_empty ''/proj'') scenario_branch_context scenario_branch_mind))) =
       Branch_id ''/proj'' ''feature/x''"
  by (simp add: load_branch_project_def load_project_def load_from_stores_def
        scenario_branch_mind_def unsearchable_cache_dir_def new_manager_def
        resolve_project_id_def scenario_runtime_def save_branch_project_def
        save_branch_context_def save_project_def Let_def no_faults_def analysed_empty_def
        new_knowledge_graph_def save_project_context_def save_files_def aborted_def
        init_database_def)

section \<open>Properties of the in-process cache\<close>

lemma map_fst_update:
  "map fst (AList.update k v xs) = (if k \<in> set (map fst xs) then map fst xs else map fst xs @ [k])"
  by (induction xs) auto

lemma save_empty_project:
  assumes "get_project_id mgr = Default_id"
  shows "get_project_id (snd (save_project scenario_runtime no_faults (analysed_empty p) mgr)) = Default_id
     \<and> max_cache_size (snd (save_project scenario_runtime no_faults (analysed_empty p) mgr)) = max_cache_size mgr
     \<and> fst (fst (save_project scenario_runtime no_faults (analysed_empty p) mgr))
     \<and> map fst (mem_cache (snd (save_project scenario_runtime no_faults (analysed_empty p) mgr))) =
         (if p \<in> set (map fst (mem_cache mgr)) then map fst (mem_cache mgr)
          else map fst (mem_cache mgr) @ [p])"
proof -
  have ctx: "kg_context (analysed_empty p) = Some (scenario_context p)"
    and fs: "files (analysed_empty p) = []"
    and rt: "kg_project_root (analysed_empty p) = p"
    by (simp_all add: analysed_empty_def new_knowledge_graph_def)
  have id: "resolve_project_id scenario_runtime mgr p = p"
    using assms by (simp add: resolve_project_id_def scenario_runtime_def)
  show ?thesis
    using assms
    by (simp add: save_project_def Let_def no_faults_def ctx fs rt id save_project_context_def
          save_files_def map_fst_update)
qed

text \<open>
  C5 on the code. Six successful saves of six projects on a fresh manager leave six graphs
  in the in-process cache, one more than \<open>max_cache_size\<close>: nothing is evicted.
\<close>

theorem cache_grows_past_maximum:
  "map fst (mem_cache six_saves) = [''/p1'', ''/p2'', ''/p3'', ''/p4'', ''/p5'', ''/p6'']
   \<and> length (mem_cache six_saves) = 6 \<and> max_cache_size six_saves = 5"
proof -
  define s where "s = (\<lambda>p mgr. snd (save_project scenario_runtime no_faults (analysed_empty p) mgr))"
  have step: "\<And>p mgr. get_project_id mgr = Default_id \<Longrightarrow>
      get_project_id (s p mgr) = Default_id \<and> max_cache_size (s p mgr) = max_cache_size mgr
      \<and> map fst (mem_cache (s p mgr)) =
         (if p \<in> set (map fst (mem_cache mgr)) then map fst (mem_cache mgr)
          else map fst (mem_cache mgr) @ [p])"
    using save_empty_project unfolding s_def by blast
  have m0: "get_project_id new_manager = Default_id \<and> max_cache_size new_manager = 5
      \<and> map fst (mem_cache new_manager) = []"
    by (simp add: new_manager_def)
  have m1: "get_project_id (s ''/p1'' new_manager) = Default_id
      \<and> max_cache_size (s ''/p1'' new_manager) = 5
      \<and> map fst (mem_cache (s ''/p1'' new_manager)) = [''/p1'']"
    using step [of new_manager "''/p1''"] m0 by simp
  have m2: "get_project_id (s ''/p2'' (s ''/p1'' new_manager)) = Default_id
      \<and> max_cache_size (s ''/p2'' (s ''/p1'' new_manager)) = 5
      \<and> map fst (mem_cache (s ''/p2'' (s ''/p1'' new_manager))) = [''/p1'', ''/p2'']"
    using step [of "s ''/p1'' new_manager" "''/p2''"] m1 by simp
  have m3: "get_project_id (s ''/p3'' (s ''/p2'' (s ''/p1'' new_manager))) = Default_id
      \<and> max_cache_size (s ''/p3'' (s ''/p2'' (s ''/p1'' new_manager))) = 5
      \<and> map fst (mem_cache (s ''/p3'' (s ''/p2'' (s ''/p1'' new_manager)))) = [''/p1'', ''/p2'', ''/p3'']"
    using step [of "s ''/p2'' (s ''/p1'' new_manager)" "''/p3''"] m2 by simp
  have m4: "get_project_id (s ''/p4'' (s ''/p3'' (s ''/p2'' (s ''/p1'' new_manager)))) = Default_id
      \<and> max_cache_size (s ''/p4'' (s ''/p3'' (s ''/p2'' (s ''/p1'' new_manager)))) = 5
      \<and> map fst (mem_cache (s ''/p4'' (s ''/p3'' (s ''/p2'' (s ''/p1'' new_manager))))) =
          [''/p1'', ''/p2'', ''/p3'', ''/p4'']"
    using step [of "s ''/p3'' (s ''/p2'' (s ''/p1'' new_manager))" "''/p4''"] m3 by simp
  have m5: "get_project_id (s ''/p5'' (s ''/p4'' (s ''/p3'' (s ''/p2'' (s ''/p1'' new_manager))))) = Default_id
      \<and> max_cache_size (s ''/p5'' (s ''/p4'' (s ''/p3'' (s ''/p2'' (s ''/p1'' new_manager))))) = 5
      \<and> map fst (mem_cache (s ''/p5'' (s ''/p4'' (s ''/p3'' (s ''/p2'' (s ''/p1'' new_manager)))))) =
          [''/p1'', ''/p2'', ''/p3'', ''/p4'', ''/p5'']"
    using step [of "s ''/p4'' (s ''/p3'' (s ''/p2'' (s ''/p1'' new_manager)))" "''/p5''"] m4 by simp
  have m6: "max_cache_size (s ''/p6'' (s ''/p5'' (s ''/p4'' (s ''/p3'' (s ''/p2'' (s ''/p1'' new_manager)))))) = 5
      \<and> map fst (mem_cache (s ''/p6'' (s ''/p5'' (s ''/p4'' (s ''/p3'' (s ''/p2'' (s ''/p1'' new_manager))))))) =
          [''/p1'', ''/p2'', ''/p3'', ''/p4'', ''/p5'', ''/p6'']"
    using step [of "s ''/p5'' (s ''/p4'' (s ''/p3'' (s ''/p2'' (s ''/p1'' new_manager))))" "''/p6''"] m5 by simp
  have six: "six_saves = s ''/p6'' (s ''/p5'' (s ''/p4'' (s ''/p3'' (s ''/p2'' (s ''/p1'' new_manager)))))"
    by (simp add: six_saves_def s_def)
  have len: "length (mem_cache six_saves) = length (map fst (mem_cache six_saves))" by simp
  show ?thesis unfolding len using m6 six by simp
qed

section \<open>Properties of the builder on scenario A\<close>

lemma scenario_a_analysis:
  "analyze_project scenario_runtime scenario_a_disk (scenario_context ''/proj'') 1000
     (new_knowledge_graph ''/proj'') = Inr scenario_a_graph"
  by code_simp

text \<open>
  C3, as amended. An import name that does not start with a dot is never resolved, so it
  yields no edge. For the project of scenario A the analysis gives two file nodes, the
  entity keyed by the path of \<open>a.py\<close> followed by \<open>:foo\<close>, and one edge, the
  \<open>contains\<close> edge from \<open>a.py\<close> to that entity with strength 1; there is no
  \<open>imports\<close> edge.
\<close>

theorem module_imports_are_not_resolved:
  "(\<not> startswith import_name ''.'' \<longrightarrow> resolve_import d import_name from_file = Inr None)
   \<and> analyze_project scenario_runtime scenario_a_disk (scenario_context ''/proj'') 1000
        (new_knowledge_graph ''/proj'') = Inr scenario_a_graph
   \<and> map fst (files scenario_a_graph) = [''/proj/a.py'', ''/proj/b.py'']
   \<and> map fst (kg_entities scenario_a_graph) = [''/proj/a.py:foo'']
   \<and> edges (graph scenario_a_graph) =
        [((''/proj/a.py'', ''/proj/a.py:foo''), \<lparr>relation_type = ''contains'', strength = 1\<rparr>)]
   \<and> number_of_edges (graph scenario_a_graph) = 1"
proof -
  have r: "\<not> startswith import_name ''.'' \<longrightarrow> resolve_import d import_name from_file = Inr None"
    by (simp add: resolve_import_def)
  have g: "map fst (files scenario_a_graph) = [''/proj/a.py'', ''/proj/b.py'']
     \<and> map fst (kg_entities scenario_a_graph) = [''/proj/a.py:foo'']
     \<and> edges (graph scenario_a_graph) =
        [((''/proj/a.py'', ''/proj/a.py:foo''), \<lparr>relation_type = ''contains'', strength = 1\<rparr>)]
     \<and> number_of_edges (graph scenario_a_graph) = 1"
    by (simp add: scenario_a_graph_def number_of_edges_def)
  from r g scenario_a_analysis show ?thesis by blast
qed

text \<open>The theorem at the import of \<open>b.py\<close>, the module name \<open>a\<close>.\<close>

theorem module_imports_are_not_resolved_witness:
  "\<not> startswith ''a'' ''.''
   \<and> file_imports scenario_b_py = [''a'']
   \<and> resolve_import scenario_a_disk ''a'' ''/proj/b.py'' = Inr None"
  using module_imports_are_not_resolved [of "''a''" scenario_a_disk "''/proj/b.py''"]
  by (simp add: startswith_def scenario_b_py_def)

text \<open>
  C3 as stated fails: the graph of scenario A has no edge from \<open>b.py\<close> to
  \<open>a.py\<close> and no \<open>imports\<close> edge at all.
\<close>

theorem scenario_a_has_no_imports_edge:
  "analyze_project scenario_runtime scenario_a_disk (scenario_context ''/proj'') 1000
     (new_knowledge_graph ''/proj'') = Inr scenario_a_graph
   \<and> map_of (edges (graph scenario_a_graph)) (''/proj/b.py'', ''/proj/a.py'') = None
   \<and> filter (\<lambda>item. relation_type (snd item) = ''imports'') (edges (graph scenario_a_graph)) = []"
  using scenario_a_analysis by (simp add: scenario_a_graph_def)

section \<open>Properties of batch application\<close>

lemma reanalyze_file_no_effect:
  "snd (reanalyze_file rt d git proot ci kg) = kg \<and> fst (reanalyze_file rt d git proot ci kg) \<noteq> Returns ()"
  by (simp add: reanalyze_file_def call_analyze_single_file_def Let_def split: outcome.splits)






lemma scenario_load:
  "load_project scenario_runtime (ue_load (scenario_env d)) (u_project_root scenario_updater) True
     (u_memory_manager scenario_updater) =
   (Inr (Some (scenario_a_graph, From_memory)), u_memory_manager scenario_updater)"
  by (simp add: load_project_def scenario_updater_def new_updater_def new_manager_def
        resolve_project_id_def scenario_runtime_def Let_def)

lemma a_modified_loop:
  "apply_changes scenario_runtime a_modified_disk quiet_git ''/proj'' a_modified_batch ([], scenario_a_graph)
     = (Returns (), [], scenario_a_graph)"
  by code_simp


lemma process_with_loaded:
  assumes "load_project rt (ue_load env) (u_project_root u) True (u_memory_manager u)
             = (Inr (Some (kg, src)), mgr)"
  shows "fst (snd (process_file_changes rt env changes u)) =
           Some (snd (snd (apply_changes rt (le_disk (ue_load env)) (ue_git env) (u_project_root u)
                             changes ([], kg))))
     \<and> (fst (process_file_changes rt env changes u) = Blocks \<longleftrightarrow>
          fst (apply_changes rt (le_disk (ue_load env)) (ue_git env) (u_project_root u) changes ([], kg))
            = Blocks)"
proof -
  obtain out upd kg' where a:
    "apply_changes rt (le_disk (ue_load env)) (ue_git env) (u_project_root u) changes ([], kg)
       = (out, upd, kg')"
    by (cases "apply_changes rt (le_disk (ue_load env)) (ue_git env) (u_project_root u) changes ([], kg)")
  have ud: "update_dependencies kg' upd \<noteq> Blocks"
    by (simp add: update_dependencies_def getattr_knowledge_graph_def)
  show ?thesis
    using assms a ud
    by (cases out; cases "update_dependencies kg' upd") (simp_all add: process_file_changes_def)
qed















lemma a_modified_graph:
  "fst (snd (process_file_changes scenario_runtime (scenario_env a_modified_disk) a_modified_batch
               scenario_updater)) = Some scenario_a_graph"
  using process_with_loaded [OF scenario_load, of a_modified_disk a_modified_batch] a_modified_loop
  by (simp add: scenario_env_def scenario_updater_def new_updater_def)

lemma a_modified_expected:
  "map_option file_hash (fst (analyze_single_file scenario_runtime a_modified_disk ''/proj/a.py'' scenario_a_graph))
     = Some ''def bar(): pass''
   \<and> map fst (kg_entities (snd (analyze_single_file scenario_runtime a_modified_disk ''/proj/a.py'' scenario_a_graph)))
     = [''/proj/a.py:foo'', ''/proj/a.py:bar'']"
  by code_simp

lemma scenario_a_graph_a_py:
  "map_option file_hash (map_of (files scenario_a_graph) ''/proj/a.py'') = Some ''def foo(): pass''
   \<and> map fst (kg_entities scenario_a_graph) = [''/proj/a.py:foo'']"
  by (simp add: scenario_a_graph_def scenario_a_py_def)

text \<open>
  C2 on the code. The branch for created and modified paths calls
  \<open>_analyze_single_file\<close> with two arguments, which raises TypeError, so it never
  returns normally and never changes the graph. In scenario A with \<open>a.py\<close> rewritten
  to \<open>def bar(): pass\<close>, the graph after the batch is the graph before it: the file
  node of \<open>a.py\<close> keeps the old hash and the entity \<open>foo\<close>, where an analysis of
  the file would give the new hash and the entity \<open>bar\<close>.
\<close>

theorem modified_file_is_not_reanalysed:
  "snd (reanalyze_file rt d git proot ci kg) = kg
   \<and> fst (reanalyze_file rt d git proot ci kg) \<noteq> Returns ()
   \<and> call_analyze_single_file rt d [fp, rel] kg = Inl TypeError
   \<and> map_option content (map_of a_modified_disk ''/proj/a.py'') = Some (Some ''def bar(): pass'')
   \<and> fst (snd (process_file_changes scenario_runtime (scenario_env a_modified_disk) a_modified_batch
                 scenario_updater)) = Some scenario_a_graph
   \<and> map_option file_hash (map_of (files scenario_a_graph) ''/proj/a.py'') = Some ''def foo(): pass''
   \<and> map fst (kg_entities scenario_a_graph) = [''/proj/a.py:foo'']
   \<and> map_option file_hash (fst (analyze_single_file scenario_runtime a_modified_disk ''/proj/a.py''
                                    scenario_a_graph)) = Some ''def bar(): pass''
   \<and> map fst (kg_entities (snd (analyze_single_file scenario_runtime a_modified_disk ''/proj/a.py''
                                    scenario_a_graph))) = [''/proj/a.py:foo'', ''/proj/a.py:bar'']"
proof -
  have c: "call_analyze_single_file rt d [fp, rel] kg = Inl TypeError"
    by (simp add: call_analyze_single_file_def)
  have d: "map_option content (map_of a_modified_disk ''/proj/a.py'') = Some (Some ''def bar(): pass'')"
    by (simp add: a_modified_disk_def)
  from reanalyze_file_no_effect [of rt d git proot ci kg] c d a_modified_graph scenario_a_graph_a_py
    a_modified_expected
  show ?thesis by simp
qed

section \<open>Properties of save\_project\<close>

lemma insert_files_raises:
  "list_ex (\<lambda>item. \<not> is_relative_to (fst item) (parent (parent (file_path (snd item))))) fs
   \<Longrightarrow> insert_files project_id fs d = Inl ValueError"
  by (induction fs arbitrary: d) auto

lemma aborted_result:
  "fst (fst (aborted evs mgr)) = False \<and> snd (aborted evs mgr) = mgr
   \<and> snd (fst (aborted evs mgr)) = Begin_transaction # evs @ [Rolled_back]"
  by (simp add: aborted_def)

lemma relational_failure_rolls_back:
  assumes "relational_write_raises fails kg"
  shows "fst (fst (save_project rt fails kg mgr)) = False
     \<and> snd (save_project rt fails kg mgr) = mgr
     \<and> Snapshot_written \<notin> set (snd (fst (save_project rt fails kg mgr)))
     \<and> Snapshot_truncated \<notin> set (snd (fst (save_project rt fails kg mgr)))
     \<and> Committed \<notin> set (snd (fst (save_project rt fails kg mgr)))"
proof -
  have f: "save_files pid (files kg) d = Inr d2 \<Longrightarrow>
     \<not> list_ex (\<lambda>item. \<not> is_relative_to (fst item) (parent (parent (file_path (snd item))))) (files kg)"
    for pid d d2
    using insert_files_raises [of "files kg" pid] by (auto simp: save_files_def)
  show ?thesis
    using assms f
    by (auto simp: save_project_def Let_def relational_write_raises_def aborted_def
          save_project_context_def split: sum.splits option.splits)
qed


lemma failed_save_keeps_store:
  "\<not> fst (fst (save_project rt fails kg mgr)) \<Longrightarrow>
     db (snd (save_project rt fails kg mgr)) = db mgr
     \<and> mem_cache (snd (save_project rt fails kg mgr)) = mem_cache mgr
     \<and> cache_timestamps (snd (save_project rt fails kg mgr)) = cache_timestamps mgr
     \<and> Committed \<notin> set (snd (fst (save_project rt fails kg mgr)))"
  by (auto simp: save_project_def Let_def aborted_def split: sum.splits if_splits)

lemma successful_save_trace:
  "fst (fst (save_project rt fails kg mgr)) \<Longrightarrow>
     snd (fst (save_project rt fails kg mgr)) =
       [Begin_transaction, Sql_done Write_context, Sql_done Write_files, Sql_done Write_entities,
        Sql_done Write_dependencies, Snapshot_written, Committed, Cache_updated]
     \<and> map_of (cache_dir (snd (save_project rt fails kg mgr)))
          (resolve_project_id rt mgr (kg_project_root kg)) = Some (Pickled kg)
     \<and> map_of (mem_cache (snd (save_project rt fails kg mgr)))
          (resolve_project_id rt mgr (kg_project_root kg)) = Some kg"
  by (auto simp: save_project_def Let_def aborted_def update_conv' split: sum.splits if_splits)

lemma snapshot_position:
  "Snapshot_written \<in> set (snd (fst (save_project rt fails kg mgr))) \<Longrightarrow>
     take 6 (snd (fst (save_project rt fails kg mgr))) =
       [Begin_transaction, Sql_done Write_context, Sql_done Write_files, Sql_done Write_entities,
        Sql_done Write_dependencies, Snapshot_written]"
  by (auto simp: save_project_def Let_def aborted_def split: sum.splits if_splits)

text \<open>
  C1, as amended. A save never partially commits: when an exception occurs in one of the
  four relational write steps, the save returns failure, the manager (relational store,
  snapshot store and in-process cache) is exactly as before, and neither a snapshot write
  nor a commit happens; whenever the save returns failure the relational store and the
  in-process cache are as before. The snapshot is written inside the transaction: it is the
  step after the four relational writes and before COMMIT, so a successful save performs
  the writes, the snapshot, the commit and the cache update in that order.
\<close>

theorem snapshot_inside_transaction:
  "(relational_write_raises fails kg \<longrightarrow>
      fst (fst (save_project rt fails kg mgr)) = False
      \<and> snd (save_project rt fails kg mgr) = mgr
      \<and> Snapshot_written \<notin> set (snd (fst (save_project rt fails kg mgr)))
      \<and> Snapshot_truncated \<notin> set (snd (fst (save_project rt fails kg mgr)))
      \<and> Committed \<notin> set (snd (fst (save_project rt fails kg mgr))))
   \<and> (\<not> fst (fst (save_project rt fails kg mgr)) \<longrightarrow>
      db (snd (save_project rt fails kg mgr)) = db mgr
      \<and> mem_cache (snd (save_project rt fails kg mgr)) = mem_cache mgr
      \<and> Committed \<notin> set (snd (fst (save_project rt fails kg mgr))))
   \<and> (fst (fst (save_project rt fails kg mgr)) \<longrightarrow>
      snd (fst (save_project rt fails kg mgr)) =
        [Begin_transaction, Sql_done Write_context, Sql_done Write_files, Sql_done Write_entities,
         Sql_done Write_dependencies, Snapshot_written, Committed, Cache_updated]
      \<and> map_of (cache_dir (snd (save_project rt fails kg mgr)))
           (resolve_project_id rt mgr (kg_project_root kg)) = Some (Pickled kg))
   \<and> (Snapshot_written \<in> set (snd (fst (save_project rt fails kg mgr))) \<longrightarrow>
      take 6 (snd (fst (save_project rt fails kg mgr))) =
        [Begin_transaction, Sql_done Write_context, Sql_done Write_files, Sql_done Write_entities,
         Sql_done Write_dependencies, Snapshot_written])"
  using relational_failure_rolls_back [of fails kg rt mgr] failed_save_keeps_store [of rt fails kg mgr]
    successful_save_trace [of rt fails kg mgr] snapshot_position [of rt fails kg mgr]
  by blast

lemma scenario_save_ok:
  "fst (save_project scenario_runtime no_faults scenario_a_graph new_manager) =
     (True, [Begin_transaction, Sql_done Write_context, Sql_done Write_files, Sql_done Write_entities,
             Sql_done Write_dependencies, Snapshot_written, Committed, Cache_updated])"
  by code_simp

lemma scenario_save_entities_fail:
  "relational_write_raises entities_write_fails scenario_a_graph
   \<and> save_project scenario_runtime entities_write_fails scenario_a_graph new_manager =
       ((False, [Begin_transaction, Sql_done Write_context, Sql_done Write_files, Rolled_back]),
        new_manager)"
  by code_simp

lemma scenario_save_commit_fail:
  "save_project scenario_runtime commit_fails scenario_a_graph new_manager =
     ((False, [Begin_transaction, Sql_done Write_context, Sql_done Write_files,
               Sql_done Write_entities, Sql_done Write_dependencies, Snapshot_written, Rolled_back]),
      new_manager\<lparr>cache_dir := [(''/proj'', Pickled scenario_a_graph)]\<rparr>)"
  by code_simp

text \<open>
  The theorem at the graph of scenario A: a save whose entity write fails, and a save
  without failures.
\<close>

theorem snapshot_inside_transaction_witness:
  "relational_write_raises entities_write_fails scenario_a_graph
   \<and> save_project scenario_runtime entities_write_fails scenario_a_graph new_manager =
       ((False, [Begin_transaction, Sql_done Write_context, Sql_done Write_files, Rolled_back]),
        new_manager)
   \<and> fst (save_project scenario_runtime no_faults scenario_a_graph new_manager) =
       (True, [Begin_transaction, Sql_done Write_context, Sql_done Write_files,
               Sql_done Write_entities, Sql_done Write_dependencies, Snapshot_written, Committed,
               Cache_updated])
   \<and> map_of (cache_dir (snd (save_project scenario_runtime no_faults scenario_a_graph new_manager)))
        (resolve_project_id scenario_runtime new_manager (kg_project_root scenario_a_graph))
       = Some (Pickled scenario_a_graph)"
  using snapshot_inside_transaction [of entities_write_fails scenario_a_graph scenario_runtime new_manager]
    snapshot_inside_transaction [of no_faults scenario_a_graph scenario_runtime new_manager]
    scenario_save_ok scenario_save_entities_fail
  by simp

text \<open>
  C1 as stated fails: in a successful save the snapshot is written before the commit, and
  when COMMIT itself fails the save returns failure with the relational store unchanged
  although the snapshot of the project has been written.
\<close>

theorem snapshot_written_without_commit:
  "snd (fst (save_project scenario_runtime no_faults scenario_a_graph new_manager)) =
     [Begin_transaction, Sql_done Write_context, Sql_done Write_files, Sql_done Write_entities,
      Sql_done Write_dependencies, Snapshot_written, Committed, Cache_updated]
   \<and> fst (fst (save_project scenario_runtime commit_fails scenario_a_graph new_manager)) = False
   \<and> db (snd (save_project scenario_runtime commit_fails scenario_a_graph new_manager)) = db new_manager
   \<and> map_of (cache_dir new_manager) ''/proj'' = None
   \<and> map_of (cache_dir (snd (save_project scenario_runtime commit_fails scenario_a_graph new_manager)))
        ''/proj'' = Some (Pickled scenario_a_graph)"
  using scenario_save_ok scenario_save_commit_fail by (simp add: new_manager_def)

section \<open>Properties of the save and load round trip\<close>






























end
